theory Spec2Isabelle
  imports Main
begin

section \<open>JavaScript values and objects\<close>

text \<open>
  The values that flow through the client: items, criteria, filters, ids and the values
  returned or thrown by user hooks. A plain ("real") object is \<open>JObj\<close>, an association
  list in key order. Arrays, dates, regular expressions and Error instances are separate
  constructors, since \<open>helpers.isRealObject\<close> tells them apart from plain objects.
  A \<open>Date\<close> carries its time value in milliseconds; \<open>None\<close> is the Invalid Date
  (time value NaN). Numeric payloads are opaque to the code modelled here, and so is a
  function value (\<open>JFunction\<close>, \<open>typeof\<close> \<open>'function'\<close>).
\<close>

datatype jsval =
    JUndefined
  | JNull
  | JBool bool
  | JNum int
  | JStr string
  | JDate "int option"
  | JRegExp string string
  | JError string
  | JFunction
  | JArr "jsval list"
  | JObj "(string \<times> jsval) list"

type_synonym obj = "(string \<times> jsval) list"

text \<open>The object's own keys: whether \<open>key\<close> is one of them, \<open>obj[key]\<close> read from
  them, \<open>obj[key] = v\<close> (an existing key keeps its position, a new key is appended) and
  \<open>delete obj[key]\<close>. For a key that no plain object inherits (\<open>_id\<close>, \<open>_owner\<close>,
  \<open>required\<close>, ...) \<open>has_prop\<close> is \<open>key in obj\<close> and \<open>get_prop\<close> is \<open>obj[key]\<close>.\<close>

definition has_prop :: "string \<Rightarrow> obj \<Rightarrow> bool" where
  "has_prop k ob = (map_of ob k \<noteq> None)"

definition get_prop :: "obj \<Rightarrow> string \<Rightarrow> jsval" where
  "get_prop ob k = (case map_of ob k of None \<Rightarrow> JUndefined | Some v \<Rightarrow> v)"

fun set_prop :: "string \<Rightarrow> jsval \<Rightarrow> obj \<Rightarrow> obj" where
  "set_prop k v [] = [(k, v)]"
| "set_prop k v ((k', v') # ob) =
     (if k' = k then (k, v) # ob else (k', v') # set_prop k v ob)"

definition delete_prop :: "string \<Rightarrow> obj \<Rightarrow> obj" where
  "delete_prop k ob = filter (\<lambda>kv. fst kv \<noteq> k) ob"

text \<open>
  The operator \<open>in\<close> and a property read also see what the object inherits. Items are
  plain objects, whose prototype is \<open>Object.prototype\<close>: every one of them inherits the
  properties named below. All of these are functions, except \<open>__proto__\<close>, which reads as
  the prototype object itself (a real object).
\<close>

definition object_prototype_names :: "string list" where
  "object_prototype_names =
     [''constructor'', ''__defineGetter__'', ''__defineSetter__'', ''hasOwnProperty'',
      ''__lookupGetter__'', ''__lookupSetter__'', ''isPrototypeOf'', ''propertyIsEnumerable'',
      ''toString'', ''valueOf'', ''__proto__'', ''toLocaleString'']"

definition inherited_value :: "string \<Rightarrow> jsval" where
  "inherited_value k = (if k = ''__proto__'' then JObj [] else JFunction)"

text \<open>\<open>key in obj\<close> and \<open>obj[key]\<close> for an arbitrary key.\<close>

definition in_object :: "string \<Rightarrow> obj \<Rightarrow> bool" where
  "in_object k ob = (has_prop k ob \<or> k \<in> set object_prototype_names)"

definition read_prop :: "obj \<Rightarrow> string \<Rightarrow> jsval" where
  "read_prop ob k =
     (case map_of ob k of
        Some v \<Rightarrow> v
      | None \<Rightarrow> (if k \<in> set object_prototype_names then inherited_value k else JUndefined))"

text \<open>Object spread \<open>{ ...base, ...src }\<close>: the entries of \<open>src\<close> are assigned onto
  \<open>base\<close> in order, so a key of \<open>src\<close> overrides the same key of \<open>base\<close>.\<close>

definition spread :: "obj \<Rightarrow> obj \<Rightarrow> obj" where
  "spread base src = foldl (\<lambda>acc kv. set_prop (fst kv) (snd kv) acc) base src"

text \<open>An optional string (\<open>string | undefined\<close>) used as a value.\<close>

definition str_or_undefined :: "string option \<Rightarrow> jsval" where
  "str_or_undefined s = (case s of None \<Rightarrow> JUndefined | Some x \<Rightarrow> JStr x)"

section \<open>Helpers\<close>

text \<open>\<open>helpers.isRealObject\<close>: an object that is not null, an array, a Date, a RegExp or
  an Error.\<close>

fun isRealObject :: "jsval \<Rightarrow> bool" where
  "isRealObject (JObj _) = True"
| "isRealObject _ = False"

definition isUndefined :: "jsval \<Rightarrow> bool" where
  "isUndefined v = (v = JUndefined)"

definition schemaTypes :: "string list" where
  "schemaTypes = [''String'', ''Number'', ''Object'', ''Array'', ''Date'', ''Boolean'']"

fun isSchemaType :: "jsval \<Rightarrow> bool" where
  "isSchemaType (JStr s) = (s \<in> set (schemaTypes @ [''Any'']))"
| "isSchemaType _ = False"

section \<open>Client configuration, collections and hooks\<close>

datatype authorization = User | System

datatype role = Admin | Member | Visitor

datatype verdict = Allowed | Denied | OwnedItems

datatype access_type = Read | Write | Modify | Delete

record client_user =
  uid :: "string option"
  loggedIn :: bool
  role :: role

record client_config =
  authorization :: authorization
  selected :: "string option"
  user :: client_user

text \<open>The context handed to every hook: \<open>{ collectionName, userId, userRole }\<close>.\<close>

record hook_context =
  collectionName :: string
  userId :: "string option"
  userRole :: role

section \<open>Access evaluator\<close>

text \<open>
  \<open>authUser\<close> of the client (the query executor carries an identical copy). A declared
  permission is a string at run time; \<open>None\<close> is \<open>undefined\<close>. Inside the \<open>User\<close>
  branch only \<open>Anyone\<close>, \<open>MemberAuthor\<close> and \<open>Member\<close> return; every other path
  leaves the branch and reaches the final \<open>return 'Denied'\<close>.
\<close>

definition authUser :: "client_config \<Rightarrow> string option \<Rightarrow> verdict" where
  "authUser cfg permission =
     (case permission of
        None \<Rightarrow> Allowed
      | Some p \<Rightarrow>
          (if authorization cfg = User then
             (if p = ''Anyone'' then Allowed
              else if \<not> loggedIn (user cfg) then Denied
              else if p = ''Admin'' \<and> role (user cfg) \<noteq> Admin then Denied
              else if p = ''MemberAuthor'' then OwnedItems
              else if p = ''Member'' then Allowed
              else Denied)
           else Allowed))"

section \<open>Errors\<close>

text \<open>
  Every \<open>throw\<close> and rejected promise of the modelled code is a value of this type; the
  constructor names the throw site and keeps the data the message interpolates.
  \<open>Thrown\<close> is a value thrown (or a promise rejected) by a user hook, a validity
  handler or the storage driver. \<open>OperationError\<close> is the record
  \<open>{ type, context, error }\<close> built by the failure reporter.
\<close>

datatype error =
    CollectionNameNotString
  | CollectionMissing string
  | CollectionCheckFailed jsval
  | ItemIdNotString
  | ItemIdEmpty
  | ItemNotObject
  | ItemsNotArray
  | SuppressAuthNotBoolean
  | SuppressHooksNotBoolean
  | DatabaseNotDefined "string option"
  | CollectionNotDefined string
  | AccessDenied "string option" access_type string
  | SchemaItemNotObject
  | SchemaTypeMismatch string string
  | InvalidSchemaType string
  | ValidityFailed jsval
  | MissingRequiredProperty string
  | IdNotString
  | IdEmpty
  | CreatedDateInvalidType
  | UpdatedDateInvalidType
  | UpdatedBeforeCreated
  | OwnerNotString
  | OwnerEmpty
  | OwnerIsSystem
  | UpdateMissingId
  | RemoveNotAcknowledged jsval
  | UpdateNotAcknowledged jsval
  | FilterPropertyNotString
  | FilterPropertyEmpty
  | FilterOptionsNotObject
  | CaseSensitiveNotForStrings
  | CaseSensitiveNotBoolean
  | Thrown jsval
  | OperationError string hook_context error

text \<open>What a user callback does when called: it throws (or its promise rejects), or it
  returns a value (the resolved value, when it returns a promise).\<close>

datatype hook_outcome = HookThrows jsval | HookReturns jsval

section \<open>Schema validator\<close>

record validity_spec =
  handler :: "jsval \<Rightarrow> hook_outcome"
  message :: jsval

text \<open>A custom schema field. \<open>required\<close> and \<open>default_val\<close> are \<open>Some v\<close> exactly
  when the key is present in the object (\<open>'required' in propSchema\<close>), whatever its
  value; \<open>validity\<close> is \<open>Some\<close> when the key is present and not undefined.\<close>

record custom_schema =
  ftype :: jsval
  required :: "jsval option"
  default_val :: "jsval option"
  validity :: "validity_spec option"

datatype schema_field = SType string | SCustom custom_schema

type_synonym schema = "(string \<times> schema_field) list"

datatype operation = Insert | Update

fun isCustomSchema :: "schema_field \<Rightarrow> bool" where
  "isCustomSchema (SType _) = False"
| "isCustomSchema (SCustom c) = (if ftype c = JUndefined then False else isSchemaType (ftype c))"

fun isArray :: "jsval \<Rightarrow> bool" where
  "isArray (JArr _) = True" | "isArray _ = False"

fun isBoolean :: "jsval \<Rightarrow> bool" where
  "isBoolean (JBool _) = True" | "isBoolean _ = False"

fun isDate :: "jsval \<Rightarrow> bool" where
  "isDate (JDate _) = True" | "isDate _ = False"

fun isNumber :: "jsval \<Rightarrow> bool" where
  "isNumber (JNum _) = True" | "isNumber _ = False"

fun isString :: "jsval \<Rightarrow> bool" where
  "isString (JStr _) = True" | "isString _ = False"

text \<open>\<open>checkType\<close>: the \<open>switch\<close> on the schema type; \<open>None\<close> is a normal return.\<close>

definition checkType :: "string \<Rightarrow> string \<Rightarrow> jsval \<Rightarrow> error option" where
  "checkType property schemaType v =
     (if schemaType = ''Array'' then
        (if \<not> isArray v then Some (SchemaTypeMismatch property schemaType) else None)
      else if schemaType = ''Boolean'' then
        (if \<not> isBoolean v then Some (SchemaTypeMismatch property schemaType) else None)
      else if schemaType = ''Date'' then
        (if \<not> isDate v then Some (SchemaTypeMismatch property schemaType) else None)
      else if schemaType = ''Number'' then
        (if \<not> isNumber v then Some (SchemaTypeMismatch property schemaType) else None)
      else if schemaType = ''String'' then
        (if \<not> isString v then Some (SchemaTypeMismatch property schemaType) else None)
      else if schemaType = ''Object'' then
        (if \<not> isRealObject v then Some (SchemaTypeMismatch property schemaType) else None)
      else if schemaType = ''Any'' then None
      else Some (InvalidSchemaType property))"

text \<open>The type check applied to a schema entry that is not a custom schema: a string is
  switched on; anything else reaches the \<open>default\<close> case.\<close>

fun checkPlainType :: "string \<Rightarrow> schema_field \<Rightarrow> jsval \<Rightarrow> error option" where
  "checkPlainType property (SType t) v = checkType property t v"
| "checkPlainType property (SCustom c) v = Some (InvalidSchemaType property)"

fun checkCustomType :: "string \<Rightarrow> jsval \<Rightarrow> jsval \<Rightarrow> error option" where
  "checkCustomType property (JStr t) v = checkType property t v"
| "checkCustomType property _ v = Some (InvalidSchemaType property)"

text \<open>The body of the \<open>for (const property in schema)\<close> loop for one property. The
  property name is any string, so \<open>property in item\<close> and \<open>item[property]\<close> are the
  general \<open>in_object\<close> and \<open>read_prop\<close>.\<close>

definition validateProperty ::
  "operation option \<Rightarrow> string \<Rightarrow> schema_field \<Rightarrow> obj \<Rightarrow> error + obj" where
  "validateProperty operation property propSchema item =
     (if isCustomSchema propSchema then
        (case propSchema of
           SType _ \<Rightarrow> Inr item
         | SCustom c \<Rightarrow>
             (if in_object property item then
                (case validity c of
                   Some vl \<Rightarrow>
                     (case handler vl (read_prop item property) of
                        HookThrows e \<Rightarrow> Inl (Thrown e)
                      | HookReturns valid \<Rightarrow>
                          (if valid \<noteq> JBool True then Inl (ValidityFailed (message vl))
                           else Inr item))
                 | None \<Rightarrow>
                     (case checkCustomType property (ftype c) (read_prop item property) of
                        Some e \<Rightarrow> Inl e
                      | None \<Rightarrow> Inr item))
              else if operation = Some Insert then
                (if required c \<noteq> None then
                   (case default_val c of
                      Some d \<Rightarrow> Inr (set_prop property d item)
                    | None \<Rightarrow> Inl (MissingRequiredProperty property))
                 else
                   (case default_val c of
                      Some d \<Rightarrow> Inr (set_prop property d item)
                    | None \<Rightarrow> Inr item))
              else Inr item))
      else
        (if in_object property item then
           (case checkPlainType property propSchema (read_prop item property) of
              Some e \<Rightarrow> Inl e
            | None \<Rightarrow> Inr item)
         else Inr item))"

fun validateProperties :: "operation option \<Rightarrow> schema \<Rightarrow> obj \<Rightarrow> error + obj" where
  "validateProperties operation [] item = Inr item"
| "validateProperties operation (ps # rest) item =
     (case validateProperty operation (fst ps) (snd ps) item of
        Inl e \<Rightarrow> Inl e
      | Inr item' \<Rightarrow> validateProperties operation rest item')"

text \<open>\<open>validateItemSchema(item, schema?, operation?)\<close>; the item is updated in place
  and returned.\<close>

definition validateItemSchema ::
  "jsval \<Rightarrow> schema option \<Rightarrow> operation option \<Rightarrow> error + obj" where
  "validateItemSchema item schema operation =
     (case item of
        JObj ob \<Rightarrow>
          (case schema of
             None \<Rightarrow> Inr ob
           | Some sc \<Rightarrow> validateProperties operation sc ob)
      | _ \<Rightarrow> Inl SchemaItemNotObject)"

section \<open>Item normalizer\<close>

text \<open>\<open>String.prototype.toLowerCase\<close> on the ASCII letters, which is all that a
  comparison with \<open>'system'\<close> depends on.\<close>

definition lower_char :: "char \<Rightarrow> char" where
  "lower_char c =
     (let n = (of_char c :: nat) in if 65 \<le> n \<and> n \<le> 90 then char_of (n + 32) else c)"

definition toLowerCase :: "string \<Rightarrow> string" where
  "toLowerCase s = map lower_char s"

text \<open>\<open>a < b\<close> on two Dates compares their time values; with an Invalid Date on either
  side the comparison is false.\<close>

definition date_lt :: "int option \<Rightarrow> int option \<Rightarrow> bool" where
  "date_lt a b = (case (a, b) of (Some x, Some y) \<Rightarrow> x < y | _ \<Rightarrow> False)"

definition date_ge :: "int option \<Rightarrow> int option \<Rightarrow> bool" where
  "date_ge a b = (case (a, b) of (Some x, Some y) \<Rightarrow> x \<ge> y | _ \<Rightarrow> False)"

text \<open>
  The readings the normalizer takes from its environment: \<open>new Date()\<close> (\<open>now\<close>),
  \<open>uuidx.v4()\<close> (\<open>fresh_id\<close>) and the date parser behind \<open>new Date(string)\<close>
  (\<open>parse_date\<close>, \<open>None\<close> for a string that does not parse). \<open>new Date(string)\<close>
  never throws, so the \<open>catch\<close> around it is never entered.
\<close>

record readings =
  now :: int
  fresh_id :: string
  parse_date :: "string \<Rightarrow> int option"

definition insert_id :: "readings \<Rightarrow> obj \<Rightarrow> error + obj" where
  "insert_id rd item =
     (if has_prop ''_id'' item then
        (case get_prop item ''_id'' of
           JStr s \<Rightarrow> (if length s = 0 then Inl IdEmpty else Inr item)
         | _ \<Rightarrow> Inl IdNotString)
      else Inr (set_prop ''_id'' (JStr (fresh_id rd)) item))"

definition insert_createdDate :: "readings \<Rightarrow> obj \<Rightarrow> error + obj" where
  "insert_createdDate rd item =
     (if has_prop ''_createdDate'' item then
        (case get_prop item ''_createdDate'' of
           JStr s \<Rightarrow> Inr (set_prop ''_createdDate'' (JDate (parse_date rd s)) item)
         | JDate d \<Rightarrow> Inr (set_prop ''_createdDate'' (JDate d) item)
         | _ \<Rightarrow> Inl CreatedDateInvalidType)
      else Inr (set_prop ''_createdDate'' (JDate (Some (now rd))) item))"

text \<open>The time value of \<open>item._createdDate\<close> as the comparison reads it.\<close>

definition time_value :: "jsval \<Rightarrow> int option" where
  "time_value v = (case v of JDate d \<Rightarrow> d | _ \<Rightarrow> None)"

definition insert_updatedDate :: "readings \<Rightarrow> obj \<Rightarrow> error + obj" where
  "insert_updatedDate rd item =
     (if has_prop ''_updatedDate'' item then
        (case (case get_prop item ''_updatedDate'' of
                 JStr s \<Rightarrow> Inr (parse_date rd s)
               | JDate d \<Rightarrow> Inr d
               | _ \<Rightarrow> Inl UpdatedDateInvalidType) of
           Inl e \<Rightarrow> Inl e
         | Inr date \<Rightarrow>
             (if date_lt date (time_value (get_prop item ''_createdDate''))
              then Inl UpdatedBeforeCreated
              else Inr (set_prop ''_updatedDate'' (JDate date) item)))
      else Inr (set_prop ''_updatedDate'' (get_prop item ''_createdDate'') item))"

definition insert_owner :: "authorization \<Rightarrow> string option \<Rightarrow> obj \<Rightarrow> error + obj" where
  "insert_owner auth callerId item =
     (if auth = System then Inr (set_prop ''_owner'' (JStr ''system'') item)
      else if has_prop ''_owner'' item then
        (case get_prop item ''_owner'' of
           JStr s \<Rightarrow>
             (if length s = 0 then Inl OwnerEmpty
              else if toLowerCase s = ''system'' then Inl OwnerIsSystem
              else Inr item)
         | _ \<Rightarrow> Inl OwnerNotString)
      else Inr (set_prop ''_owner'' (str_or_undefined callerId) item))"

text \<open>\<open>validateInsertItem(item, userId)\<close>: the four blocks in source order, each on the
  item as the previous one left it.\<close>

definition validateInsertItem ::
  "authorization \<Rightarrow> readings \<Rightarrow> obj \<Rightarrow> string option \<Rightarrow> error + obj" where
  "validateInsertItem auth rd item callerId =
     (case insert_id rd item of
        Inl e \<Rightarrow> Inl e
      | Inr item1 \<Rightarrow>
          (case insert_createdDate rd item1 of
             Inl e \<Rightarrow> Inl e
           | Inr item2 \<Rightarrow>
               (case insert_updatedDate rd item2 of
                  Inl e \<Rightarrow> Inl e
                | Inr item3 \<Rightarrow> insert_owner auth callerId item3)))"

definition validateUpdateItem :: "readings \<Rightarrow> obj \<Rightarrow> error + obj" where
  "validateUpdateItem rd item =
     (if has_prop ''_id'' item then
        (case get_prop item ''_id'' of
           JStr s \<Rightarrow>
             (if length s = 0 then Inl IdEmpty
              else Inr (set_prop ''_updatedDate'' (JDate (Some (now rd)))
                          (delete_prop ''_owner'' (delete_prop ''_createdDate'' item))))
         | _ \<Rightarrow> Inl IdNotString)
      else Inl UpdateMissingId)"

section \<open>Collections, hooks and options\<close>

text \<open>
  A before-insert or before-update hook receives the item object itself and may change it
  in place. \<open>ItemHookReturns arg r\<close>: the hook left the object it was passed with the
  content \<open>arg\<close> and returned either that very object (\<open>ReturnsArgument\<close>) or some
  other value (\<open>ReturnsValue\<close>).
\<close>

datatype hook_return = ReturnsArgument | ReturnsValue jsval

datatype item_hook_outcome = ItemHookThrows jsval | ItemHookReturns obj hook_return

record collection_hooks =
  beforeGetItemHook :: "(jsval \<Rightarrow> hook_context \<Rightarrow> hook_outcome) option"
  afterGetItemHook :: "(obj \<Rightarrow> hook_context \<Rightarrow> hook_outcome) option"
  beforeInsertHook :: "(obj \<Rightarrow> hook_context \<Rightarrow> item_hook_outcome) option"
  afterInsertHook :: "(jsval \<Rightarrow> hook_context \<Rightarrow> hook_outcome) option"
  beforeRemoveHook :: "(jsval \<Rightarrow> hook_context \<Rightarrow> hook_outcome) option"
  afterRemoveHook :: "(jsval \<Rightarrow> hook_context \<Rightarrow> hook_outcome) option"
  beforeUpdateHook :: "(obj \<Rightarrow> hook_context \<Rightarrow> item_hook_outcome) option"
  afterUpdateHook :: "(jsval \<Rightarrow> hook_context \<Rightarrow> hook_outcome) option"
  onFailureHook :: "(error \<Rightarrow> hook_context \<Rightarrow> hook_outcome) option"

record permissions =
  p_read :: string
  p_write :: string
  p_modify :: string
  p_delete :: string

record collection_definition =
  name :: string
  schema :: "schema option"
  permissions :: "permissions option"
  hooks :: collection_hooks

record database_definition =
  dbName :: string
  collections :: "collection_definition list"

text \<open>Operation options; a field is \<open>Some v\<close> when the key is present.\<close>

record options =
  suppressAuth :: "jsval option"
  suppressHooks :: "jsval option"

section \<open>Storage capability\<close>

text \<open>
  The document store is a parameter: reads are functions of the store's state, writes
  also return the new state; \<open>Inl\<close> is a rejected call. The world is that state
  together with the log of the requests sent to the store, in order.
\<close>

type_synonym target = "string option \<times> string"

record cursor_options =
  sort :: "(string \<times> int) list"
  projection :: "(string \<times> nat) list"
  limit :: nat
  skip :: nat

datatype call =
    ListCollections "string option"
  | FindOne target obj
  | Find target obj cursor_options
  | CountDocuments target jsval
  | InsertOne target obj
  | DeleteOne target obj
  | UpdateOne target obj obj

record 'db storage =
  listCollections :: "'db \<Rightarrow> string option \<Rightarrow> jsval + string list"
  findOne :: "'db \<Rightarrow> target \<Rightarrow> obj \<Rightarrow> jsval + obj option"
  toArray :: "'db \<Rightarrow> target \<Rightarrow> obj \<Rightarrow> cursor_options \<Rightarrow> jsval + obj list"
  countDocuments :: "'db \<Rightarrow> target \<Rightarrow> jsval \<Rightarrow> jsval + nat"
  insertOne :: "'db \<Rightarrow> target \<Rightarrow> obj \<Rightarrow> (jsval + jsval) \<times> 'db"
  deleteOne :: "'db \<Rightarrow> target \<Rightarrow> obj \<Rightarrow> (jsval + bool) \<times> 'db"
  updateOne :: "'db \<Rightarrow> target \<Rightarrow> obj \<Rightarrow> obj \<Rightarrow> (jsval + bool) \<times> 'db"

text \<open>The heap holds the filter objects that builders and query executors share by
  reference; an address is an index into it.\<close>

record 'db world =
  db :: 'db
  log :: "call list"
  heap :: "obj list"

definition call_listCollections ::
  "'db storage \<Rightarrow> string option \<Rightarrow> 'db world \<Rightarrow> (jsval + string list) \<times> 'db world" where
  "call_listCollections S d w =
     (listCollections S (db w) d, w\<lparr>log := log w @ [ListCollections d]\<rparr>)"

definition call_findOne ::
  "'db storage \<Rightarrow> target \<Rightarrow> obj \<Rightarrow> 'db world \<Rightarrow> (jsval + obj option) \<times> 'db world" where
  "call_findOne S t criteria w =
     (findOne S (db w) t criteria, w\<lparr>log := log w @ [FindOne t criteria]\<rparr>)"

definition call_insertOne ::
  "'db storage \<Rightarrow> target \<Rightarrow> obj \<Rightarrow> 'db world \<Rightarrow> (jsval + jsval) \<times> 'db world" where
  "call_insertOne S t doc w =
     (case insertOne S (db w) t doc of
        (r, d') \<Rightarrow> (r, w\<lparr>db := d', log := log w @ [InsertOne t doc]\<rparr>))"

definition call_deleteOne ::
  "'db storage \<Rightarrow> target \<Rightarrow> obj \<Rightarrow> 'db world \<Rightarrow> (jsval + bool) \<times> 'db world" where
  "call_deleteOne S t criteria w =
     (case deleteOne S (db w) t criteria of
        (r, d') \<Rightarrow> (r, w\<lparr>db := d', log := log w @ [DeleteOne t criteria]\<rparr>))"

definition call_updateOne ::
  "'db storage \<Rightarrow> target \<Rightarrow> obj \<Rightarrow> obj \<Rightarrow> 'db world \<Rightarrow> (jsval + bool) \<times> 'db world" where
  "call_updateOne S t criteria upd w =
     (case updateOne S (db w) t criteria upd of
        (r, d') \<Rightarrow> (r, w\<lparr>db := d', log := log w @ [UpdateOne t criteria upd]\<rparr>))"

section \<open>Prechecks of the client\<close>

definition checkCollectionValidity ::
  "'db storage \<Rightarrow> client_config \<Rightarrow> string \<Rightarrow> 'db world \<Rightarrow> (error + unit) \<times> 'db world" where
  "checkCollectionValidity S cfg cname w =
     (case call_listCollections S (selected cfg) w of
        (Inl e, w') \<Rightarrow> (Inl (CollectionCheckFailed e), w')
      | (Inr names, w') \<Rightarrow>
          (if cname \<in> set names then (Inr (), w') else (Inl (CollectionMissing cname), w')))"

datatype arg_data = ArgString jsval | ArgObject jsval | ArgArray jsval

fun checkArgData :: "arg_data \<Rightarrow> error option" where
  "checkArgData (ArgString v) =
     (case v of
        JStr s \<Rightarrow> (if length s = 0 then Some ItemIdEmpty else None)
      | _ \<Rightarrow> Some ItemIdNotString)"
| "checkArgData (ArgObject v) = (if \<not> isRealObject v then Some ItemNotObject else None)"
| "checkArgData (ArgArray v) = (if \<not> isArray v then Some ItemsNotArray else None)"

definition checkOptions :: "options \<Rightarrow> error option" where
  "checkOptions opts =
     (case suppressAuth opts of
        Some (JBool _) \<Rightarrow>
          (case suppressHooks opts of
             Some (JBool _) \<Rightarrow> None | Some _ \<Rightarrow> Some SuppressHooksNotBoolean | None \<Rightarrow> None)
      | Some _ \<Rightarrow> Some SuppressAuthNotBoolean
      | None \<Rightarrow>
          (case suppressHooks opts of
             Some (JBool _) \<Rightarrow> None | Some _ \<Rightarrow> Some SuppressHooksNotBoolean | None \<Rightarrow> None))"

definition checkArgs ::
  "'db storage \<Rightarrow> client_config \<Rightarrow> jsval \<Rightarrow> arg_data \<Rightarrow> options \<Rightarrow> 'db world
   \<Rightarrow> (error + unit) \<times> 'db world" where
  "checkArgs S cfg collName argData opts w =
     (case collName of
        JStr cname \<Rightarrow>
          (case checkCollectionValidity S cfg cname w of
             (Inl e, w') \<Rightarrow> (Inl e, w')
           | (Inr u, w') \<Rightarrow>
               (case checkArgData argData of
                  Some e \<Rightarrow> (Inl e, w')
                | None \<Rightarrow>
                    (case checkOptions opts of
                       Some e \<Rightarrow> (Inl e, w')
                     | None \<Rightarrow> (Inr (), w'))))
      | _ \<Rightarrow> (Inl CollectionNameNotString, w))"

text \<open>\<open>databaseManager.getDatabase(name)\<close> on the registered definitions.\<close>

definition getDatabase :: "database_definition list \<Rightarrow> string option \<Rightarrow> database_definition option" where
  "getDatabase reg sel =
     (case sel of None \<Rightarrow> None | Some n \<Rightarrow> find (\<lambda>i. dbName i = n) reg)"

definition access_field :: "permissions \<Rightarrow> access_type \<Rightarrow> string" where
  "access_field ps a =
     (case a of Read \<Rightarrow> p_read ps | Write \<Rightarrow> p_write ps
      | Modify \<Rightarrow> p_modify ps | Delete \<Rightarrow> p_delete ps)"

text \<open>\<open>collection.permissions?.[accessType] || 'Allowed'\<close>.\<close>

definition declared_permission :: "collection_definition \<Rightarrow> access_type \<Rightarrow> string" where
  "declared_permission c a =
     (case permissions c of
        None \<Rightarrow> ''Allowed''
      | Some ps \<Rightarrow> (if access_field ps a = [] then ''Allowed'' else access_field ps a))"

definition prepareEvent ::
  "database_definition list \<Rightarrow> client_config \<Rightarrow> string \<Rightarrow> access_type \<Rightarrow> options
   \<Rightarrow> error + (verdict \<times> collection_definition)" where
  "prepareEvent reg cfg cname accessType opts =
     (case getDatabase reg (selected cfg) of
        None \<Rightarrow> Inl (DatabaseNotDefined (selected cfg))
      | Some database \<Rightarrow>
          (case find (\<lambda>i. name i = cname) (collections database) of
             None \<Rightarrow> Inl (CollectionNotDefined cname)
           | Some c \<Rightarrow>
               (let permission = declared_permission c accessType;
                    auth = (if suppressAuth opts \<noteq> Some (JBool True)
                            then authUser cfg (Some permission) else Allowed)
                in if auth = Denied
                   then Inl (AccessDenied (uid (user cfg)) accessType (name c))
                   else Inr (auth, c))))"

definition make_context :: "collection_definition \<Rightarrow> client_config \<Rightarrow> hook_context" where
  "make_context c cfg =
     \<lparr>collectionName = name c, userId = uid (user cfg), userRole = role (user cfg)\<rparr>"

section \<open>Hook pipeline\<close>

definition hooks_enabled :: "options \<Rightarrow> bool" where
  "hooks_enabled opts = (suppressHooks opts \<noteq> Some (JBool True))"

text \<open>The body shared, word for word, by \<open>beforeGetItem\<close>, \<open>beforeRemove\<close>,
  \<open>afterRemove\<close> and \<open>afterUpdate\<close>: a string result replaces the id, anything else
  is ignored.\<close>

definition id_event ::
  "(jsval \<Rightarrow> hook_context \<Rightarrow> hook_outcome) option \<Rightarrow> jsval \<Rightarrow> hook_context \<Rightarrow> options
   \<Rightarrow> error + jsval" where
  "id_event hook itemId ctx opts =
     (if hooks_enabled opts then
        (case hook of
           Some h \<Rightarrow>
             (case h itemId ctx of
                HookThrows e \<Rightarrow> Inl (Thrown e)
              | HookReturns r \<Rightarrow> (if isString r then Inr r else Inr itemId))
         | None \<Rightarrow> Inr itemId)
      else Inr itemId)"

definition beforeGetItem where "beforeGetItem = id_event"
definition beforeRemove where "beforeRemove = id_event"
definition afterRemove where "afterRemove = id_event"
definition afterUpdate where "afterUpdate = id_event"

definition afterGetItem ::
  "(obj \<Rightarrow> hook_context \<Rightarrow> hook_outcome) option \<Rightarrow> obj \<Rightarrow> hook_context \<Rightarrow> options
   \<Rightarrow> error + jsval" where
  "afterGetItem hook item ctx opts =
     (if hooks_enabled opts then
        (case hook of
           Some h \<Rightarrow>
             (case h item ctx of
                HookThrows e \<Rightarrow> Inl (Thrown e)
              | HookReturns r \<Rightarrow> (if isRealObject r then Inr r else Inr (JObj item)))
         | None \<Rightarrow> Inr (JObj item))
      else Inr (JObj item))"

definition afterInsert ::
  "(jsval \<Rightarrow> hook_context \<Rightarrow> hook_outcome) option \<Rightarrow> jsval \<Rightarrow> hook_context \<Rightarrow> options
   \<Rightarrow> error + jsval" where
  "afterInsert hook item ctx opts =
     (if hooks_enabled opts then
        (case hook of
           Some h \<Rightarrow>
             (case h item ctx of
                HookThrows e \<Rightarrow> Inl (Thrown e)
              | HookReturns r \<Rightarrow> (if isRealObject r then Inr r else Inr item))
         | None \<Rightarrow> Inr item)
      else Inr item)"

text \<open>\<open>beforeInsert\<close>: the normalizer always runs on the item; a real object returned by
  the hook is normalized again and replaces it. The two normalizer calls take their own
  readings of the clock and the id generator.\<close>

definition beforeInsert ::
  "authorization \<Rightarrow> (nat \<Rightarrow> readings) \<Rightarrow> (obj \<Rightarrow> hook_context \<Rightarrow> item_hook_outcome) option
   \<Rightarrow> obj \<Rightarrow> hook_context \<Rightarrow> options \<Rightarrow> error + obj" where
  "beforeInsert auth rds hook item ctx opts =
     (case validateInsertItem auth (rds 0) item (userId ctx) of
        Inl e \<Rightarrow> Inl e
      | Inr item1 \<Rightarrow>
          (if hooks_enabled opts then
             (case hook of
                Some h \<Rightarrow>
                  (case h item1 ctx of
                     ItemHookThrows e \<Rightarrow> Inl (Thrown e)
                   | ItemHookReturns item2 ReturnsArgument \<Rightarrow>
                       validateInsertItem auth (rds 1) item2 (userId ctx)
                   | ItemHookReturns item2 (ReturnsValue r) \<Rightarrow>
                       (case r of
                          JObj other \<Rightarrow> validateInsertItem auth (rds 1) other (userId ctx)
                        | _ \<Rightarrow> Inr item2))
              | None \<Rightarrow> Inr item1)
           else Inr item1))"

text \<open>\<open>beforeUpdate\<close> returns the item to use; the model also returns the content of
  the object that was passed in as \<open>item\<close>, which the caller still holds: the result is
  \<open>(item as left in place, returned item)\<close>. The two are the same object unless the
  hook returned another real object.\<close>

definition beforeUpdate ::
  "(nat \<Rightarrow> readings) \<Rightarrow> (obj \<Rightarrow> hook_context \<Rightarrow> item_hook_outcome) option
   \<Rightarrow> obj \<Rightarrow> hook_context \<Rightarrow> options \<Rightarrow> error + (obj \<times> obj)" where
  "beforeUpdate rds hook item ctx opts =
     (case validateUpdateItem (rds 0) item of
        Inl e \<Rightarrow> Inl e
      | Inr item1 \<Rightarrow>
          (if hooks_enabled opts then
             (case hook of
                Some h \<Rightarrow>
                  (case h item1 ctx of
                     ItemHookThrows e \<Rightarrow> Inl (Thrown e)
                   | ItemHookReturns item2 ReturnsArgument \<Rightarrow>
                       (case validateUpdateItem (rds 1) item2 of
                          Inl e \<Rightarrow> Inl e
                        | Inr item3 \<Rightarrow> Inr (item3, item3))
                   | ItemHookReturns item2 (ReturnsValue r) \<Rightarrow>
                       (case r of
                          JObj other \<Rightarrow>
                            (case validateUpdateItem (rds 1) other of
                               Inl e \<Rightarrow> Inl e
                             | Inr other' \<Rightarrow> Inr (item2, other'))
                        | _ \<Rightarrow> Inr (item2, item2)))
              | None \<Rightarrow> Inr (item1, item1))
           else Inr (item1, item1)))"

section \<open>Failure reporter\<close>

text \<open>
  \<open>onFailure\<close> never returns: the result is the record it throws, together with whether
  the warning about a throwing hook was written to the console. For this hook
  \<open>HookThrows\<close> is a synchronous throw; its return value is not looked at.
\<close>

definition onFailure ::
  "(error \<Rightarrow> hook_context \<Rightarrow> hook_outcome) option \<Rightarrow> options \<Rightarrow> string \<Rightarrow> hook_context
   \<Rightarrow> error \<Rightarrow> error \<times> bool" where
  "onFailure hook opts dataOperation ctx err =
     (let record = OperationError (dataOperation @ ''_error'') ctx err;
          warned = (if hooks_enabled opts then
                      (case hook of
                         Some h \<Rightarrow> (case h err ctx of HookThrows e \<Rightarrow> True | HookReturns r \<Rightarrow> False)
                       | None \<Rightarrow> False)
                    else False)
      in (record, warned))"

text \<open>The single \<open>catch\<close> of an operation: a failure of the \<open>try\<close> block is handed to
  the reporter, whose throw is the operation's error.\<close>

definition catch_report ::
  "collection_definition \<Rightarrow> options \<Rightarrow> string \<Rightarrow> hook_context
   \<Rightarrow> (error + 'a) \<times> 'w \<Rightarrow> (error + 'a) \<times> 'w" where
  "catch_report c opts dataOperation ctx r =
     (case r of
        (Inl e, w) \<Rightarrow> (Inl (fst (onFailure (onFailureHook (hooks c)) opts dataOperation ctx e)), w)
      | (Inr v, w) \<Rightarrow> (Inr v, w))"

section \<open>CRUD operations of the client\<close>

text \<open>Reading a value that the prechecks have established to be a string or a real
  object.\<close>

fun the_str :: "jsval \<Rightarrow> string" where
  "the_str (JStr s) = s" | "the_str _ = []"

fun the_obj :: "jsval \<Rightarrow> obj" where
  "the_obj (JObj ob) = ob" | "the_obj _ = []"

text \<open>\<open>...(permission === 'Owned-Items' ? { _owner: context.userId } : {})\<close>.\<close>

definition owner_scope :: "verdict \<Rightarrow> hook_context \<Rightarrow> obj" where
  "owner_scope permission ctx =
     (if permission = OwnedItems then [(''_owner'', str_or_undefined (userId ctx))] else [])"

definition getItem_try ::
  "'db storage \<Rightarrow> client_config \<Rightarrow> string \<Rightarrow> collection_definition \<Rightarrow> verdict
   \<Rightarrow> hook_context \<Rightarrow> jsval \<Rightarrow> options \<Rightarrow> 'db world \<Rightarrow> (error + jsval) \<times> 'db world" where
  "getItem_try S cfg cname c permission ctx itemId opts w =
     (case beforeGetItem (beforeGetItemHook (hooks c)) itemId ctx opts of
        Inl e \<Rightarrow> (Inl e, w)
      | Inr newItemId \<Rightarrow>
          (let criteria = spread [(''_id'', newItemId)] (owner_scope permission ctx)
           in case call_findOne S (selected cfg, cname) criteria w of
                (Inl e, w') \<Rightarrow> (Inl (Thrown e), w')
              | (Inr None, w') \<Rightarrow> (Inr JNull, w')
              | (Inr (Some item), w') \<Rightarrow>
                  (case afterGetItem (afterGetItemHook (hooks c)) item ctx opts of
                     Inl e \<Rightarrow> (Inl e, w')
                   | Inr newItem \<Rightarrow> (Inr newItem, w'))))"

definition getItem ::
  "'db storage \<Rightarrow> database_definition list \<Rightarrow> client_config \<Rightarrow> jsval \<Rightarrow> jsval \<Rightarrow> options
   \<Rightarrow> 'db world \<Rightarrow> (error + jsval) \<times> 'db world" where
  "getItem S reg cfg collName itemId opts w =
     (case checkArgs S cfg collName (ArgString itemId) opts w of
        (Inl e, w') \<Rightarrow> (Inl e, w')
      | (Inr u, w') \<Rightarrow>
          (case prepareEvent reg cfg (the_str collName) Read opts of
             Inl e \<Rightarrow> (Inl e, w')
           | Inr (permission, c) \<Rightarrow>
               catch_report c opts ''getItem'' (make_context c cfg)
                 (getItem_try S cfg (the_str collName) c permission (make_context c cfg)
                    itemId opts w')))"

text \<open>The \<open>try\<close> block of \<open>insert\<close> up to the read-back of the inserted document.
  The schema validator is called without an operation argument.\<close>

definition insert_try ::
  "'db storage \<Rightarrow> (nat \<Rightarrow> readings) \<Rightarrow> client_config \<Rightarrow> string \<Rightarrow> collection_definition
   \<Rightarrow> hook_context \<Rightarrow> jsval \<Rightarrow> options \<Rightarrow> 'db world \<Rightarrow> (error + jsval) \<times> 'db world" where
  "insert_try S rds cfg cname c ctx item opts w =
     (case beforeInsert (authorization cfg) rds (beforeInsertHook (hooks c)) (the_obj item)
             ctx opts of
        Inl e \<Rightarrow> (Inl e, w)
      | Inr beforeItem \<Rightarrow>
          (case validateItemSchema (JObj beforeItem) (schema c) None of
             Inl e \<Rightarrow> (Inl e, w)
           | Inr finalItem \<Rightarrow>
               (case call_insertOne S (selected cfg, cname) finalItem w of
                  (Inl e, w1) \<Rightarrow> (Inl (Thrown e), w1)
                | (Inr insertedId, w1) \<Rightarrow>
                    (case call_findOne S (selected cfg, cname) [(''_id'', insertedId)] w1 of
                       (Inl e, w2) \<Rightarrow> (Inl (Thrown e), w2)
                     | (Inr None, w2) \<Rightarrow> (Inr JNull, w2)
                     | (Inr (Some d), w2) \<Rightarrow> (Inr (JObj d), w2)))))"

text \<open>\<open>insert\<close>: the promise of \<open>afterInsert\<close> is returned without being awaited, so
  a failure of the after-hook is not routed through the \<open>catch\<close>.\<close>

definition insert_op ::
  "'db storage \<Rightarrow> database_definition list \<Rightarrow> (nat \<Rightarrow> readings) \<Rightarrow> client_config \<Rightarrow> jsval
   \<Rightarrow> jsval \<Rightarrow> options \<Rightarrow> 'db world \<Rightarrow> (error + jsval) \<times> 'db world" where
  "insert_op S reg rds cfg collName item opts w =
     (case checkArgs S cfg collName (ArgObject item) opts w of
        (Inl e, w') \<Rightarrow> (Inl e, w')
      | (Inr u, w') \<Rightarrow>
          (case prepareEvent reg cfg (the_str collName) Write opts of
             Inl e \<Rightarrow> (Inl e, w')
           | Inr (permission, c) \<Rightarrow>
               (case catch_report c opts ''insert'' (make_context c cfg)
                       (insert_try S rds cfg (the_str collName) c (make_context c cfg)
                          item opts w') of
                  (Inl e, w'') \<Rightarrow> (Inl e, w'')
                | (Inr insertedItem, w'') \<Rightarrow>
                    (afterInsert (afterInsertHook (hooks c)) insertedItem
                       (make_context c cfg) opts, w''))))"

text \<open>The \<open>try\<close> block of \<open>remove\<close>. The after-remove event is given
  \<open>collection.hooks?.beforeRemove\<close> as its hook.\<close>

definition remove_try ::
  "'db storage \<Rightarrow> client_config \<Rightarrow> string \<Rightarrow> collection_definition \<Rightarrow> verdict
   \<Rightarrow> hook_context \<Rightarrow> jsval \<Rightarrow> options \<Rightarrow> 'db world \<Rightarrow> (error + jsval) \<times> 'db world" where
  "remove_try S cfg cname c permission ctx itemId opts w =
     (case beforeRemove (beforeRemoveHook (hooks c)) itemId ctx opts of
        Inl e \<Rightarrow> (Inl e, w)
      | Inr beforeItemId \<Rightarrow>
          (let criteria = spread [(''_id'', beforeItemId)] (owner_scope permission ctx)
           in case call_deleteOne S (selected cfg, cname) criteria w of
                (Inl e, w') \<Rightarrow> (Inl (Thrown e), w')
              | (Inr acknowledged, w') \<Rightarrow>
                  (if \<not> acknowledged then (Inl (RemoveNotAcknowledged beforeItemId), w')
                   else
                     (case afterRemove (beforeRemoveHook (hooks c)) beforeItemId ctx opts of
                        Inl e \<Rightarrow> (Inl e, w')
                      | Inr afterItemId \<Rightarrow> (Inr afterItemId, w')))))"

definition remove_op ::
  "'db storage \<Rightarrow> database_definition list \<Rightarrow> client_config \<Rightarrow> jsval \<Rightarrow> jsval \<Rightarrow> options
   \<Rightarrow> 'db world \<Rightarrow> (error + jsval) \<times> 'db world" where
  "remove_op S reg cfg collName itemId opts w =
     (case checkArgs S cfg collName (ArgString itemId) opts w of
        (Inl e, w') \<Rightarrow> (Inl e, w')
      | (Inr u, w') \<Rightarrow>
          (case prepareEvent reg cfg (the_str collName) Delete opts of
             Inl e \<Rightarrow> (Inl e, w')
           | Inr (permission, c) \<Rightarrow>
               catch_report c opts ''remove'' (make_context c cfg)
                 (remove_try S cfg (the_str collName) c permission (make_context c cfg)
                    itemId opts w')))"

text \<open>The \<open>try\<close> block of \<open>update\<close>. The criteria are built from \<open>finalItem\<close>; the
  \<open>$set\<close> payload is \<open>item\<close>, the object the caller passed in.\<close>

definition update_try ::
  "'db storage \<Rightarrow> (nat \<Rightarrow> readings) \<Rightarrow> client_config \<Rightarrow> string \<Rightarrow> collection_definition
   \<Rightarrow> verdict \<Rightarrow> hook_context \<Rightarrow> jsval \<Rightarrow> options \<Rightarrow> 'db world
   \<Rightarrow> (error + jsval) \<times> 'db world" where
  "update_try S rds cfg cname c permission ctx item opts w =
     (case beforeUpdate rds (beforeUpdateHook (hooks c)) (the_obj item) ctx opts of
        Inl e \<Rightarrow> (Inl e, w)
      | Inr (item', beforeItem) \<Rightarrow>
          (case validateItemSchema (JObj beforeItem) (schema c) (Some Update) of
             Inl e \<Rightarrow> (Inl e, w)
           | Inr finalItem \<Rightarrow>
               (let criteria = spread [(''_id'', get_prop finalItem ''_id'')]
                                 (owner_scope permission ctx)
                in case call_updateOne S (selected cfg, cname) criteria
                          [(''$set'', JObj item')] w of
                     (Inl e, w') \<Rightarrow> (Inl (Thrown e), w')
                   | (Inr acknowledged, w') \<Rightarrow>
                       (if \<not> acknowledged
                        then (Inl (UpdateNotAcknowledged (get_prop finalItem ''_id'')), w')
                        else
                          (case afterUpdate (afterUpdateHook (hooks c))
                                  (get_prop finalItem ''_id'') ctx opts of
                             Inl e \<Rightarrow> (Inl e, w')
                           | Inr afterItemId \<Rightarrow> (Inr afterItemId, w'))))))"

definition update_op ::
  "'db storage \<Rightarrow> database_definition list \<Rightarrow> (nat \<Rightarrow> readings) \<Rightarrow> client_config \<Rightarrow> jsval
   \<Rightarrow> jsval \<Rightarrow> options \<Rightarrow> 'db world \<Rightarrow> (error + jsval) \<times> 'db world" where
  "update_op S reg rds cfg collName item opts w =
     (case checkArgs S cfg collName (ArgObject item) opts w of
        (Inl e, w') \<Rightarrow> (Inl e, w')
      | (Inr u, w') \<Rightarrow>
          (case prepareEvent reg cfg (the_str collName) Modify opts of
             Inl e \<Rightarrow> (Inl e, w')
           | Inr (permission, c) \<Rightarrow>
               catch_report c opts ''update'' (make_context c cfg)
                 (update_try S rds cfg (the_str collName) c permission (make_context c cfg)
                    item opts w')))"

section \<open>Filter builder\<close>

text \<open>
  A \<open>DataFilter\<close> owns one query object, \<open>#_queryObject\<close>, which lives in the heap;
  the builder is the address of that object. Every operator assigns into the object
  in place, and the getter \<open>_filter\<close> returns the object itself.
\<close>

record data_filter =
  queryObject :: nat

definition new_DataFilter :: "'db world \<Rightarrow> data_filter \<times> 'db world" where
  "new_DataFilter w = (\<lparr>queryObject = length (heap w)\<rparr>, w\<lparr>heap := heap w @ [[]]\<rparr>)"

definition filter_get :: "data_filter \<Rightarrow> nat" where
  "filter_get f = queryObject f"

definition deref :: "'db world \<Rightarrow> nat \<Rightarrow> obj" where
  "deref w a = heap w ! a"

definition assign_prop :: "data_filter \<Rightarrow> string \<Rightarrow> jsval \<Rightarrow> 'db world \<Rightarrow> 'db world" where
  "assign_prop f k v w =
     w\<lparr>heap := (heap w)[queryObject f := set_prop k v (heap w ! queryObject f)]\<rparr>"

definition checkProperty :: "jsval \<Rightarrow> error option" where
  "checkProperty prop =
     (case prop of
        JStr s \<Rightarrow> (if length s = 0 then Some FilterPropertyEmpty else None)
      | _ \<Rightarrow> Some FilterPropertyNotString)"

definition gte :: "data_filter \<Rightarrow> jsval \<Rightarrow> jsval \<Rightarrow> 'db world \<Rightarrow> error + 'db world" where
  "gte f property v w =
     (case checkProperty property of
        Some e \<Rightarrow> Inl e
      | None \<Rightarrow> Inr (assign_prop f (the_str property) (JObj [(''$gte'', v)]) w))"

text \<open>The characters escaped by \<open>value.replace(/[.*+?^${}()|[\]\\]/g, '\\$&')\<close>.\<close>

definition regex_specials :: "char list" where
  "regex_specials = ''.*+?^${}()|[]'' @ [CHR 0x5C]"

definition escape_regex :: "string \<Rightarrow> string" where
  "escape_regex s =
     concat (map (\<lambda>c. if c \<in> set regex_specials then [CHR 0x5C, c] else [c]) s)"

definition eq_options_error :: "jsval \<Rightarrow> jsval \<Rightarrow> error option" where
  "eq_options_error v opts =
     (if opts \<noteq> JUndefined then
        (if \<not> isRealObject opts then Some FilterOptionsNotObject
         else if has_prop ''caseSensitive'' (the_obj opts) then
           (if \<not> isString v then Some CaseSensitiveNotForStrings
            else if \<not> isBoolean (get_prop (the_obj opts) ''caseSensitive'')
            then Some CaseSensitiveNotBoolean
            else None)
         else None)
      else None)"

text \<open>\<open>options?.caseSensitive ?? true\<close>.\<close>

definition eq_caseSensitive :: "jsval \<Rightarrow> jsval" where
  "eq_caseSensitive opts =
     (let c = get_prop (the_obj opts) ''caseSensitive''
      in if c = JUndefined \<or> c = JNull then JBool True else c)"

definition eq_filter ::
  "data_filter \<Rightarrow> jsval \<Rightarrow> jsval \<Rightarrow> jsval \<Rightarrow> 'db world \<Rightarrow> error + 'db world" where
  "eq_filter f property v opts w =
     (case checkProperty property of
        Some e \<Rightarrow> Inl e
      | None \<Rightarrow>
          (case eq_options_error v opts of
             Some e \<Rightarrow> Inl e
           | None \<Rightarrow>
               (if isString v \<and> eq_caseSensitive opts = JBool False then
                  Inr (assign_prop f (the_str property)
                         (JRegExp (''^'' @ escape_regex (the_str v) @ ''$'') ''i'') w)
                else Inr (assign_prop f (the_str property) (JObj [(''$eq'', v)]) w))))"

section \<open>Query executor\<close>

text \<open>\<open>#_data\<close> and \<open>#_config\<close> of a \<open>DataQuery\<close>. The configured filter is
  \<open>null\<close> or a reference to a filter object in the heap.\<close>

record data_query =
  q_database :: database_definition
  q_collection :: collection_definition
  q_user :: client_user
  q_authorization :: authorization
  q_filter :: "nat option"
  q_cursor :: cursor_options

text \<open>\<open>client.query(collectionName)\<close>.\<close>

definition query ::
  "database_definition list \<Rightarrow> client_config \<Rightarrow> string \<Rightarrow> error + data_query" where
  "query reg cfg cname =
     (case getDatabase reg (selected cfg) of
        None \<Rightarrow> Inl (DatabaseNotDefined (selected cfg))
      | Some database \<Rightarrow>
          (case find (\<lambda>i. name i = cname) (collections database) of
             None \<Rightarrow> Inl (CollectionNotDefined cname)
           | Some c \<Rightarrow>
               Inr \<lparr>q_database = database, q_collection = c, q_user = user cfg,
                    q_authorization = authorization cfg, q_filter = None,
                    q_cursor = \<lparr>sort = [], projection = [], limit = 100, skip = 0\<rparr>\<rparr>))"

text \<open>\<open>DataQuery.filter(filter)\<close>: \<open>this.#_config.filter = filter._filter\<close>.\<close>

definition filter_op :: "data_query \<Rightarrow> data_filter \<Rightarrow> data_query" where
  "filter_op q f = q\<lparr>q_filter := Some (filter_get f)\<rparr>"

text \<open>The executor's own copy of \<open>authUser\<close>.\<close>

definition authUser_query :: "data_query \<Rightarrow> string option \<Rightarrow> verdict" where
  "authUser_query q permission =
     (case permission of
        None \<Rightarrow> Allowed
      | Some p \<Rightarrow>
          (if q_authorization q = User then
             (if p = ''Anyone'' then Allowed
              else if \<not> loggedIn (q_user q) then Denied
              else if p = ''Admin'' \<and> role (q_user q) \<noteq> Admin then Denied
              else if p = ''MemberAuthor'' then OwnedItems
              else if p = ''Member'' then Allowed
              else Denied)
           else Allowed))"

definition q_target :: "data_query \<Rightarrow> target" where
  "q_target q = (Some (dbName (q_database q)), name (q_collection q))"

definition checkCollectionValidity_query ::
  "'db storage \<Rightarrow> data_query \<Rightarrow> 'db world \<Rightarrow> (error + unit) \<times> 'db world" where
  "checkCollectionValidity_query S q w =
     (case call_listCollections S (Some (dbName (q_database q))) w of
        (Inl e, w') \<Rightarrow> (Inl (CollectionCheckFailed e), w')
      | (Inr names, w') \<Rightarrow>
          (if name (q_collection q) \<in> set names then (Inr (), w')
           else (Inl (CollectionMissing (name (q_collection q))), w')))"

definition prepareEvent_query ::
  "'db storage \<Rightarrow> data_query \<Rightarrow> options \<Rightarrow> 'db world \<Rightarrow> (error + verdict) \<times> 'db world" where
  "prepareEvent_query S q opts w =
     (case checkCollectionValidity_query S q w of
        (Inl e, w') \<Rightarrow> (Inl e, w')
      | (Inr u, w') \<Rightarrow>
          (let readAccess = map_option p_read (permissions (q_collection q));
               permission = (if suppressAuth opts \<noteq> Some (JBool True)
                             then authUser_query q readAccess else Allowed)
           in if permission = Denied
              then (Inl (AccessDenied (uid (q_user q)) Read (name (q_collection q))), w')
              else (Inr permission, w')))"

definition query_context :: "data_query \<Rightarrow> hook_context" where
  "query_context q =
     \<lparr>collectionName = name (q_collection q), userId = uid (q_user q),
      userRole = role (q_user q)\<rparr>"

text \<open>The filter expression of \<open>find\<close> and \<open>count\<close>:
  \<open>suppressAuth === true ? filter : permission === 'Owned-Items'
     ? { _owner: context.userId, ...filter } : filter\<close>.\<close>

definition scoped_filter :: "options \<Rightarrow> verdict \<Rightarrow> hook_context \<Rightarrow> obj \<Rightarrow> obj" where
  "scoped_filter opts permission ctx flt =
     (if suppressAuth opts = Some (JBool True) then flt
      else if permission = OwnedItems
      then spread [(''_owner'', str_or_undefined (userId ctx))] flt
      else flt)"

record query_result =
  totalCount :: nat
  pages :: nat
  pageSize :: nat
  items :: "obj list"

text \<open>
  The \<open>try\<close> block of \<open>find\<close>. A missing filter is first replaced by a new empty
  object. The count and the page are requested together with the same filter
  (\<open>Promise.all\<close>); when the count is rejected its error is the one reported.
  \<open>limit\<close> is at least 1 (the setter refuses less), so the page count is the rounded-up
  quotient.
\<close>

definition find_try ::
  "'db storage \<Rightarrow> data_query \<Rightarrow> options \<Rightarrow> 'db world
   \<Rightarrow> (error + query_result) \<times> (data_query \<times> 'db world)" where
  "find_try S q opts w =
     (let q1 = (case q_filter q of None \<Rightarrow> q\<lparr>q_filter := Some (length (heap w))\<rparr> | Some a \<Rightarrow> q);
          w1 = (case q_filter q of None \<Rightarrow> w\<lparr>heap := heap w @ [[]]\<rparr> | Some a \<Rightarrow> w)
      in case prepareEvent_query S q1 opts w1 of
           (Inl e, w2) \<Rightarrow> (Inl e, (q1, w2))
         | (Inr permission, w2) \<Rightarrow>
             (let flt = scoped_filter opts permission (query_context q1)
                          (deref w2 (the (q_filter q1)));
                  w3 = w2\<lparr>log := log w2 @ [CountDocuments (q_target q1) (JObj flt),
                                             Find (q_target q1) flt (q_cursor q1)]\<rparr>
              in case countDocuments S (db w2) (q_target q1) (JObj flt) of
                   Inl e \<Rightarrow> (Inl (Thrown e), (q1, w3))
                 | Inr cnt \<Rightarrow>
                     (case toArray S (db w2) (q_target q1) flt (q_cursor q1) of
                        Inl e \<Rightarrow> (Inl (Thrown e), (q1, w3))
                      | Inr its \<Rightarrow>
                          (Inr \<lparr>totalCount = cnt,
                                pages = (cnt + limit (q_cursor q1) - 1) div limit (q_cursor q1),
                                pageSize = limit (q_cursor q1), items = its\<rparr>, (q1, w3)))))"

definition find_op ::
  "'db storage \<Rightarrow> data_query \<Rightarrow> options \<Rightarrow> 'db world
   \<Rightarrow> (error + query_result) \<times> (data_query \<times> 'db world)" where
  "find_op S q opts w =
     catch_report (q_collection q) opts ''query'' (query_context q) (find_try S q opts w)"

text \<open>The \<open>try\<close> block of \<open>count\<close>; a filter that was never set stays \<open>null\<close>, and
  spreading \<open>null\<close> adds nothing.\<close>

definition count_try ::
  "'db storage \<Rightarrow> data_query \<Rightarrow> options \<Rightarrow> 'db world \<Rightarrow> (error + nat) \<times> 'db world" where
  "count_try S q opts w =
     (case prepareEvent_query S q opts w of
        (Inl e, w') \<Rightarrow> (Inl e, w')
      | (Inr permission, w') \<Rightarrow>
          (let flt = (if suppressAuth opts = Some (JBool True) \<or> permission \<noteq> OwnedItems
                      then (case q_filter q of None \<Rightarrow> JNull | Some a \<Rightarrow> JObj (deref w' a))
                      else JObj (spread [(''_owner'', str_or_undefined (userId (query_context q)))]
                                   (case q_filter q of None \<Rightarrow> [] | Some a \<Rightarrow> deref w' a)));
               w'' = w'\<lparr>log := log w' @ [CountDocuments (q_target q) flt]\<rparr>
           in case countDocuments S (db w') (q_target q) flt of
                Inl e \<Rightarrow> (Inl (Thrown e), w'')
              | Inr cnt \<Rightarrow> (Inr cnt, w'')))"

definition count_op ::
  "'db storage \<Rightarrow> data_query \<Rightarrow> options \<Rightarrow> 'db world \<Rightarrow> (error + nat) \<times> 'db world" where
  "count_op S q opts w =
     catch_report (q_collection q) opts ''count'' (query_context q) (count_try S q opts w)"

text \<open>Reading the date fields of an item handed to the normalizer: the time value a
  supplied date stands for, the creation time the normalizer will settle on, and whether
  the supplied dates are valid (a Date that is not the Invalid Date, or a string that the
  date parser accepts).\<close>

definition supplied_time :: "readings \<Rightarrow> jsval \<Rightarrow> int option" where
  "supplied_time rd v = (case v of JStr s \<Rightarrow> parse_date rd s | JDate d \<Rightarrow> d | _ \<Rightarrow> None)"

definition created_time :: "readings \<Rightarrow> obj \<Rightarrow> int option" where
  "created_time rd item =
     (if has_prop ''_createdDate'' item then supplied_time rd (get_prop item ''_createdDate'')
      else Some (now rd))"

definition valid_date_field :: "readings \<Rightarrow> obj \<Rightarrow> string \<Rightarrow> bool" where
  "valid_date_field rd item k =
     (case map_of item k of
        Some (JStr s) \<Rightarrow> parse_date rd s \<noteq> None
      | Some (JDate d) \<Rightarrow> d \<noteq> None
      | _ \<Rightarrow> True)"

section \<open>An in-memory store and example collections\<close>

text \<open>
  A small store on which the operations can be run on concrete inputs: the state is the
  list of documents of one collection, a criterion \<open>{ k: v }\<close> or \<open>{ k: { $eq: v } }\<close>
  matches a document whose field \<open>k\<close> equals \<open>v\<close>, and every write is acknowledged.
\<close>

fun value_matches :: "jsval \<Rightarrow> jsval \<Rightarrow> bool" where
  "value_matches (JObj [(k, x)]) v = (if k = ''$eq'' then v = x else v = JObj [(k, x)])"
| "value_matches c v = (v = c)"

definition matches :: "obj \<Rightarrow> obj \<Rightarrow> bool" where
  "matches criteria doc = list_all (\<lambda>kc. value_matches (snd kc) (get_prop doc (fst kc))) criteria"

fun remove_first :: "('a \<Rightarrow> bool) \<Rightarrow> 'a list \<Rightarrow> 'a list" where
  "remove_first P [] = []"
| "remove_first P (x # xs) = (if P x then xs else x # remove_first P xs)"

fun update_first :: "('a \<Rightarrow> bool) \<Rightarrow> ('a \<Rightarrow> 'a) \<Rightarrow> 'a list \<Rightarrow> 'a list" where
  "update_first P g [] = []"
| "update_first P g (x # xs) = (if P x then g x # xs else x # update_first P g xs)"

definition mem_storage :: "string list \<Rightarrow> (obj list) storage" where
  "mem_storage names =
     \<lparr>listCollections = (\<lambda>d s. Inr names),
      findOne = (\<lambda>d t c. Inr (find (matches c) d)),
      toArray = (\<lambda>d t c co. Inr (take (limit co) (drop (skip co) (filter (matches c) d)))),
      countDocuments = (\<lambda>d t c. Inr (length (filter (matches (the_obj c)) d))),
      insertOne = (\<lambda>d t doc. (Inr (get_prop doc ''_id''), d @ [doc])),
      deleteOne = (\<lambda>d t c. (Inr True, remove_first (matches c) d)),
      updateOne = (\<lambda>d t c u.
         (Inr True, update_first (matches c) (\<lambda>doc. spread doc (the_obj (get_prop u ''$set''))) d))\<rparr>"

definition ex_store :: "(obj list) storage" where
  "ex_store = mem_storage [''Notes'', ''Profiles'', ''Posts'', ''Tasks'', ''Passwords'', ''Drafts'']"

definition ex_parse_date :: "string \<Rightarrow> int option" where
  "ex_parse_date s =
     (if s = ''1970-01-01T00:00:01.000Z'' then Some 1000
      else if s = ''1970-01-01T00:00:09.000Z'' then Some 9000
      else None)"

definition ex_readings :: "nat \<Rightarrow> readings" where
  "ex_readings k = \<lparr>now = 5000 + int k, fresh_id = ''generated-id'', parse_date = ex_parse_date\<rparr>"

definition no_hooks :: collection_hooks where
  "no_hooks =
     \<lparr>beforeGetItemHook = None, afterGetItemHook = None, beforeInsertHook = None,
      afterInsertHook = None, beforeRemoveHook = None, afterRemoveHook = None,
      beforeUpdateHook = None, afterUpdateHook = None, onFailureHook = None\<rparr>"

definition no_options :: options where
  "no_options = \<lparr>suppressAuth = None, suppressHooks = None\<rparr>"

definition owned_permissions :: permissions where
  "owned_permissions =
     \<lparr>p_read = ''MemberAuthor'', p_write = ''Member'', p_modify = ''MemberAuthor'',
      p_delete = ''MemberAuthor''\<rparr>"

definition admin_permissions :: permissions where
  "admin_permissions =
     \<lparr>p_read = ''Admin'', p_write = ''Admin'', p_modify = ''Admin'', p_delete = ''Admin''\<rparr>"

definition hashed_required :: custom_schema where
  "hashed_required =
     \<lparr>ftype = JStr ''String'', required = Some (JBool True), default_val = None,
      validity = None\<rparr>"

definition ex_notes :: collection_definition where
  "ex_notes =
     \<lparr>name = ''Notes'', schema = None, permissions = Some owned_permissions, hooks = no_hooks\<rparr>"

definition ex_profiles :: collection_definition where
  "ex_profiles =
     \<lparr>name = ''Profiles'', schema = Some [(''hashed'', SCustom hashed_required)],
      permissions = Some owned_permissions, hooks = no_hooks\<rparr>"

definition rename_hook :: "obj \<Rightarrow> hook_context \<Rightarrow> item_hook_outcome" where
  "rename_hook item ctx =
     ItemHookReturns item
       (ReturnsValue (JObj [(''_id'', get_prop item ''_id''), (''title'', JStr ''from hook'')]))"

definition ex_posts :: collection_definition where
  "ex_posts =
     \<lparr>name = ''Posts'', schema = None, permissions = Some owned_permissions,
      hooks = no_hooks\<lparr>beforeUpdateHook := Some rename_hook\<rparr>\<rparr>"

definition mark_before :: "jsval \<Rightarrow> hook_context \<Rightarrow> hook_outcome" where
  "mark_before itemId ctx = HookReturns (JStr (the_str itemId @ ''+before''))"

definition mark_after :: "jsval \<Rightarrow> hook_context \<Rightarrow> hook_outcome" where
  "mark_after itemId ctx = HookReturns (JStr (the_str itemId @ ''+after''))"

definition ex_tasks :: collection_definition where
  "ex_tasks =
     \<lparr>name = ''Tasks'', schema = None, permissions = Some owned_permissions,
      hooks = no_hooks\<lparr>beforeRemoveHook := Some mark_before, afterRemoveHook := Some mark_after\<rparr>\<rparr>"

definition ex_passwords :: collection_definition where
  "ex_passwords =
     \<lparr>name = ''Passwords'', schema = Some [(''hashed'', SCustom hashed_required)],
      permissions = Some admin_permissions, hooks = no_hooks\<rparr>"

definition status_defaulted :: custom_schema where
  "status_defaulted =
     \<lparr>ftype = JStr ''String'', required = Some (JBool True), default_val = Some (JStr ''new''),
      validity = None\<rparr>"

definition ex_drafts :: collection_definition where
  "ex_drafts =
     \<lparr>name = ''Drafts'', schema = Some [(''status'', SCustom status_defaulted)],
      permissions = Some owned_permissions, hooks = no_hooks\<rparr>"

definition ex_registry :: "database_definition list" where
  "ex_registry =
     [\<lparr>dbName = ''Auth'',
       collections = [ex_notes, ex_profiles, ex_posts, ex_tasks, ex_passwords, ex_drafts]\<rparr>]"

definition alice :: client_config where
  "alice =
     \<lparr>authorization = User, selected = Some ''Auth'',
      user = \<lparr>uid = Some ''alice'', loggedIn = True, role = Member\<rparr>\<rparr>"

definition root_admin :: client_config where
  "root_admin =
     \<lparr>authorization = User, selected = Some ''Auth'',
      user = \<lparr>uid = Some ''root'', loggedIn = True, role = Admin\<rparr>\<rparr>"

definition bobs_note :: obj where
  "bobs_note = [(''_id'', JStr ''n1''), (''_owner'', JStr ''bob''), (''text'', JStr ''private'')]"

definition notes_query :: data_query where
  "notes_query =
     \<lparr>q_database = hd ex_registry, q_collection = ex_notes, q_user = user alice,
      q_authorization = User, q_filter = None,
      q_cursor = \<lparr>sort = [], projection = [], limit = 100, skip = 0\<rparr>\<rparr>"

definition world0 :: "obj list \<Rightarrow> (obj list) world" where
  "world0 docs = \<lparr>db = docs, log = [], heap = []\<rparr>"

definition optional_hashed :: custom_schema where
  "optional_hashed = hashed_required\<lparr>required := Some (JBool False)\<rparr>"

definition throwing_hook :: "error \<Rightarrow> hook_context \<Rightarrow> hook_outcome" where
  "throwing_hook err ctx = HookThrows (JStr ''thrown inside onFailure'')"

definition ex_context :: hook_context where
  "ex_context = \<lparr>collectionName = ''Notes'', userId = Some ''alice'', userRole = Member\<rparr>"

section \<open>Properties\<close>

subsection \<open>Objects\<close>

lemma map_of_set_prop: "map_of (set_prop k v ob) = (map_of ob)(k \<mapsto> v)"
  by (induction ob) (auto simp: fun_eq_iff)

lemma has_prop_set_prop: "has_prop k' (set_prop k v ob) = (k' = k \<or> has_prop k' ob)"
  by (simp add: has_prop_def map_of_set_prop)

lemma get_prop_set_prop:
  "get_prop (set_prop k v ob) k' = (if k' = k then v else get_prop ob k')"
  by (simp add: get_prop_def map_of_set_prop)

lemma in_object_set_prop: "in_object k' (set_prop k v ob) = (k' = k \<or> in_object k' ob)"
  by (auto simp: in_object_def has_prop_set_prop)

subsection \<open>Access evaluator\<close>

lemma authUser_Admin_not_admin_role:
  "authorization cfg = User \<Longrightarrow> role (user cfg) \<noteq> Admin
   \<Longrightarrow> authUser cfg (Some ''Admin'') = Denied"
  by (simp add: authUser_def)

text \<open>
  C2. Against an \<open>Admin\<close>-declared permission a logged-in caller whose role is not Admin
  is denied, and a caller whose role is Admin should be allowed. In the code the
  \<open>Admin\<close> branch only returns for the wrong role; a logged-in Admin falls through the
  \<open>MemberAuthor\<close> and \<open>Member\<close> tests to the final \<open>return 'Denied'\<close>.
\<close>

theorem authUser_Admin_role_is_denied:
  "authUser root_admin (Some ''Admin'') = Denied
   \<and> fst (getItem ex_store ex_registry root_admin (JStr ''Passwords'') (JStr ''p1'')
            no_options (world0 []))
       = Inl (AccessDenied (Some ''root'') Read ''Passwords'')"
proof -
  have a: "authUser root_admin (Some ''Admin'') = Denied"
    by (simp add: authUser_def root_admin_def)
  have c: "fst (getItem ex_store ex_registry root_admin (JStr ''Passwords'') (JStr ''p1'')
                  no_options (world0 []))
             = Inl (AccessDenied (Some ''root'') Read ''Passwords'')"
    by (simp add: getItem_def checkArgs_def checkCollectionValidity_def
          call_listCollections_def ex_store_def mem_storage_def checkOptions_def
          no_options_def prepareEvent_def getDatabase_def ex_registry_def root_admin_def
          authUser_def world0_def declared_permission_def access_field_def
          admin_permissions_def ex_notes_def ex_profiles_def ex_posts_def ex_tasks_def
          ex_passwords_def)
  from a c show ?thesis by blast
qed

subsection \<open>Schema validator\<close>

lemma validateProperty_keeps_absent:
  assumes "validateProperty operation q ps item = Inr item'" and "p \<noteq> q"
  shows "in_object p item' = in_object p item"
  using assms
  by (auto simp: validateProperty_def in_object_set_prop
           split: if_splits schema_field.splits option.splits hook_outcome.splits)

lemma validateProperties_keeps_absent:
  "validateProperties operation sc item = Inr item' \<Longrightarrow> p \<notin> fst ` set sc
   \<Longrightarrow> in_object p item' = in_object p item"
proof (induction sc arbitrary: item)
  case Nil
  then show ?case by simp
next
  case (Cons ps sc)
  from Cons.prems(1) obtain mid where
    step: "validateProperty operation (fst ps) (snd ps) item = Inr mid" and
    rest: "validateProperties operation sc mid = Inr item'"
    by (auto split: sum.splits)
  from Cons.prems(2) have "p \<noteq> fst ps" and "p \<notin> fst ` set sc" by auto
  with step rest Cons.IH show ?case
    by (metis validateProperty_keeps_absent)
qed

lemma validateProperties_append:
  "validateProperties operation (pre @ rest) item =
     (case validateProperties operation pre item of
        Inl e \<Rightarrow> Inl e
      | Inr mid \<Rightarrow> validateProperties operation rest mid)"
  by (induction pre arbitrary: item) (auto split: sum.splits)

lemma validateProperty_required_key:
  assumes "isCustomSchema (SCustom c)" and "required c = Some r" and "default_val c = None"
    and "\<not> in_object p item"
  shows "validateProperty (Some Insert) p (SCustom c) item = Inl (MissingRequiredProperty p)"
  using assms by (simp add: validateProperty_def)

text \<open>
  C10. The required-field rule looks at the presence of the \<open>required\<close> key, not at its
  value. For a custom schema field declared with \<open>required: false\<close> and no default,
  validating under \<open>Insert\<close> an item that lacks the field fails with the
  missing-required-property error, exactly as with \<open>required: true\<close>. An item lacks the
  field when the validator's own test \<open>property in item\<close> is false: the item has no such
  key and the name is not one that every object inherits. The field may stand anywhere in
  the schema, provided the properties before it validate.
\<close>

theorem required_key_presence_triggers:
  assumes "isCustomSchema (SCustom c)"
    and "required c = Some (JBool False)"
    and "default_val c = None"
    and "\<not> in_object p item"
    and "p \<notin> fst ` set pre"
    and "validateProperties (Some Insert) pre item = Inr mid"
  shows "validateItemSchema (JObj item) (Some (pre @ (p, SCustom c) # post)) (Some Insert)
           = Inl (MissingRequiredProperty p)
       \<and> validateItemSchema (JObj item)
           (Some (pre @ (p, SCustom (c\<lparr>required := Some (JBool True)\<rparr>)) # post)) (Some Insert)
           = Inl (MissingRequiredProperty p)"
proof -
  have absent: "\<not> in_object p mid"
    using assms(4,5,6) validateProperties_keeps_absent by blast
  have one: "validateProperty (Some Insert) p (SCustom c) mid = Inl (MissingRequiredProperty p)"
    using assms(1,2,3) absent by (rule validateProperty_required_key)
  have custom': "isCustomSchema (SCustom (c\<lparr>required := Some (JBool True)\<rparr>))"
    using assms(1) by (simp split: if_splits)
  have two: "validateProperty (Some Insert) p (SCustom (c\<lparr>required := Some (JBool True)\<rparr>)) mid
               = Inl (MissingRequiredProperty p)"
    using custom' absent assms(3) by (simp add: validateProperty_def)
  show ?thesis
    using one two assms(6)
    by (simp add: validateItemSchema_def validateProperties_append)
qed

theorem required_key_presence_triggers_witness:
  "isCustomSchema (SCustom optional_hashed)
   \<and> required optional_hashed = Some (JBool False)
   \<and> default_val optional_hashed = None
   \<and> \<not> in_object ''hashed'' [(''name'', JStr ''A'')]
   \<and> ''hashed'' \<notin> fst ` set ([] :: schema)
   \<and> validateProperties (Some Insert) [] [(''name'', JStr ''A'')] = Inr [(''name'', JStr ''A'')]
   \<and> validateItemSchema (JObj [(''name'', JStr ''A'')])
        (Some [(''hashed'', SCustom optional_hashed)]) (Some Insert)
        = Inl (MissingRequiredProperty ''hashed'')"
proof -
  have h1: "isCustomSchema (SCustom optional_hashed)"
    by (simp add: optional_hashed_def hashed_required_def schemaTypes_def)
  have h2: "required optional_hashed = Some (JBool False)"
    by (simp add: optional_hashed_def)
  have h3: "default_val optional_hashed = None"
    by (simp add: optional_hashed_def hashed_required_def)
  have h4: "\<not> in_object ''hashed'' [(''name'', JStr ''A'')]"
    by (simp add: in_object_def has_prop_def object_prototype_names_def)
  have h5: "''hashed'' \<notin> fst ` set ([] :: schema)" by simp
  have h6: "validateProperties (Some Insert) [] [(''name'', JStr ''A'')] = Inr [(''name'', JStr ''A'')]"
    by simp
  from required_key_presence_triggers [OF h1 h2 h3 h4 h5 h6, of "[]"]
  show ?thesis using h1 h2 h3 h4 h5 h6 by simp
qed

text \<open>
  For a schema field whose name every object inherits, such as \<open>constructor\<close>, the test
  \<open>property in item\<close> is true of every item: the required rule is never reached, and the
  inherited function is type-checked instead.
\<close>

lemma inherited_name_is_type_checked:
  "in_object ''constructor'' [(''name'', JStr ''A'')]
   \<and> validateItemSchema (JObj [(''name'', JStr ''A'')])
        (Some [(''constructor'', SCustom optional_hashed)]) (Some Insert)
        = Inl (SchemaTypeMismatch ''constructor'' ''String'')"
  by (simp add: validateItemSchema_def validateProperty_def in_object_def read_prop_def
        object_prototype_names_def inherited_value_def checkType_def optional_hashed_def
        hashed_required_def schemaTypes_def)

subsection \<open>Failure reporter\<close>

text \<open>
  C6. Whatever the collection's \<open>onFailure\<close> hook does, the reporter throws the record
  \<open>{ type: '<operation>_error', context, error }\<close> holding the original error; when the
  hook is present, hooks are not suppressed and the hook throws synchronously, that throw
  is caught (only the console warning is written) and the same record is thrown. Every
  failure that reaches an operation's \<open>catch\<close> therefore leaves as that record.
\<close>

theorem onFailure_keeps_original_error:
  "fst (onFailure hook opts dataOperation ctx err)
     = OperationError (dataOperation @ ''_error'') ctx err
   \<and> (hooks_enabled opts \<and> hook = Some h \<and> h err ctx = HookThrows x
        \<longrightarrow> onFailure hook opts dataOperation ctx err
              = (OperationError (dataOperation @ ''_error'') ctx err, True))
   \<and> catch_report c opts dataOperation ctx (Inl err, w)
       = (Inl (OperationError (dataOperation @ ''_error'') ctx err), w)"
  by (simp add: onFailure_def catch_report_def Let_def)

theorem onFailure_keeps_original_error_witness:
  "hooks_enabled no_options
   \<and> throwing_hook UpdatedBeforeCreated ex_context = HookThrows (JStr ''thrown inside onFailure'')
   \<and> onFailure (Some throwing_hook) no_options ''insert'' ex_context UpdatedBeforeCreated
       = (OperationError ''insert_error'' ex_context UpdatedBeforeCreated, True)"
proof -
  have h1: "hooks_enabled no_options"
    by (simp add: hooks_enabled_def no_options_def)
  have h2: "throwing_hook UpdatedBeforeCreated ex_context
              = HookThrows (JStr ''thrown inside onFailure'')"
    by (simp add: throwing_hook_def)
  have "onFailure (Some throwing_hook) no_options ''insert'' ex_context UpdatedBeforeCreated
          = (OperationError (''insert'' @ ''_error'') ex_context UpdatedBeforeCreated, True)"
    using h1 h2 onFailure_keeps_original_error
         [of "Some throwing_hook" no_options "''insert''" ex_context UpdatedBeforeCreated
             throwing_hook "JStr ''thrown inside onFailure''" ex_notes "()"]
    by blast
  then show ?thesis using h1 h2 by simp
qed

subsection \<open>Denied write\<close>

lemma checkCollectionValidity_frame:
  assumes "checkCollectionValidity S cfg cname w = (r, w')"
  shows "w' = w\<lparr>log := log w @ [ListCollections (selected cfg)]\<rparr>"
  using assms
  by (auto simp: checkCollectionValidity_def call_listCollections_def
           split: sum.splits if_splits)

lemma checkArgs_frame:
  assumes "checkArgs S cfg collName argData opts w = (r, w')"
  shows "w' = w \<or> w' = w\<lparr>log := log w @ [ListCollections (selected cfg)]\<rparr>"
proof (cases collName)
  case (JStr cname)
  obtain r1 w1 where cv: "checkCollectionValidity S cfg cname w = (r1, w1)"
    by (cases "checkCollectionValidity S cfg cname w")
  then have "w1 = w\<lparr>log := log w @ [ListCollections (selected cfg)]\<rparr>"
    by (rule checkCollectionValidity_frame)
  moreover have "w' = w1"
    using assms JStr cv
    by (auto simp: checkArgs_def split: sum.splits option.splits)
  ultimately show ?thesis by simp
qed (use assms in \<open>auto simp: checkArgs_def\<close>)

lemma checkArgs_passes_frame:
  assumes "checkArgs S cfg collName argData opts w = (Inr u, w')"
  shows "w' = w\<lparr>log := log w @ [ListCollections (selected cfg)]\<rparr>"
proof (cases collName)
  case (JStr cname)
  obtain r1 w1 where cv: "checkCollectionValidity S cfg cname w = (r1, w1)"
    by (cases "checkCollectionValidity S cfg cname w")
  then have "w1 = w\<lparr>log := log w @ [ListCollections (selected cfg)]\<rparr>"
    by (rule checkCollectionValidity_frame)
  moreover have "w' = w1"
    using assms JStr cv
    by (auto simp: checkArgs_def split: sum.splits option.splits)
  ultimately show ?thesis by simp
qed (use assms in \<open>auto simp: checkArgs_def\<close>)

lemma prepareEvent_denied:
  assumes "authorization cfg = User" and "role (user cfg) = Member"
    and "suppressAuth opts \<noteq> Some (JBool True)"
    and "getDatabase reg (selected cfg) = Some d"
    and "find (\<lambda>i. name i = cname) (collections d) = Some c"
    and "permissions c = Some ps" and "p_write ps = ''Admin''"
  shows "prepareEvent reg cfg cname Write opts = Inl (AccessDenied (uid (user cfg)) Write (name c))"
  using assms
  by (simp add: prepareEvent_def declared_permission_def access_field_def authUser_def Let_def)

text \<open>
  C7. A \<open>User\<close>-mode client with role \<open>Member\<close> calls \<open>insert\<close> on a registered
  collection declaring \<open>write: 'Admin'\<close>, without suppressing authorization. The call
  always fails, the store's state is left as it was, and the only request sent to the
  store is the listing of collections made by the prechecks; when the prechecks pass, the
  error is the access-denied error raised by \<open>prepareEvent\<close>.
\<close>

theorem insert_denied_before_write:
  assumes "authorization cfg = User" and "role (user cfg) = Member"
    and "suppressAuth opts \<noteq> Some (JBool True)"
    and "getDatabase reg (selected cfg) = Some d"
    and "find (\<lambda>i. name i = cname) (collections d) = Some c"
    and "permissions c = Some ps" and "p_write ps = ''Admin''"
  shows "(\<exists>e. fst (insert_op S reg rds cfg (JStr cname) item opts w) = Inl e)
       \<and> db (snd (insert_op S reg rds cfg (JStr cname) item opts w)) = db w
       \<and> (log (snd (insert_op S reg rds cfg (JStr cname) item opts w)) = log w
          \<or> log (snd (insert_op S reg rds cfg (JStr cname) item opts w))
              = log w @ [ListCollections (selected cfg)])
       \<and> (fst (checkArgs S cfg (JStr cname) (ArgObject item) opts w) = Inr ()
            \<longrightarrow> insert_op S reg rds cfg (JStr cname) item opts w
                  = (Inl (AccessDenied (uid (user cfg)) Write (name c)),
                     w\<lparr>log := log w @ [ListCollections (selected cfg)]\<rparr>))"
proof -
  obtain r w' where ca: "checkArgs S cfg (JStr cname) (ArgObject item) opts w = (r, w')"
    by (cases "checkArgs S cfg (JStr cname) (ArgObject item) opts w")
  have frame: "w' = w \<or> w' = w\<lparr>log := log w @ [ListCollections (selected cfg)]\<rparr>"
    using ca by (rule checkArgs_frame)
  have pe: "prepareEvent reg cfg cname Write opts
              = Inl (AccessDenied (uid (user cfg)) Write (name c))"
    using assms by (rule prepareEvent_denied)
  show ?thesis
  proof (cases r)
    case (Inl e)
    then have "insert_op S reg rds cfg (JStr cname) item opts w = (Inl e, w')"
      using ca by (simp add: insert_op_def)
    then show ?thesis using frame ca Inl by auto
  next
    case (Inr u)
    then have w': "w' = w\<lparr>log := log w @ [ListCollections (selected cfg)]\<rparr>"
      using ca checkArgs_passes_frame by blast
    have "insert_op S reg rds cfg (JStr cname) item opts w
            = (Inl (AccessDenied (uid (user cfg)) Write (name c)), w')"
      using ca Inr pe by (simp add: insert_op_def)
    then show ?thesis using w' by simp
  qed
qed

theorem insert_denied_before_write_witness:
  "authorization alice = User \<and> role (user alice) = Member
   \<and> suppressAuth no_options \<noteq> Some (JBool True)
   \<and> getDatabase ex_registry (selected alice) = Some (hd ex_registry)
   \<and> find (\<lambda>i. name i = ''Passwords'') (collections (hd ex_registry)) = Some ex_passwords
   \<and> permissions ex_passwords = Some admin_permissions
   \<and> p_write admin_permissions = ''Admin''
   \<and> fst (checkArgs ex_store alice (JStr ''Passwords'') (ArgObject (JObj [(''hashed'', JStr ''secret'')]))
            no_options (world0 [])) = Inr ()
   \<and> insert_op ex_store ex_registry ex_readings alice (JStr ''Passwords'')
        (JObj [(''hashed'', JStr ''secret'')]) no_options (world0 [])
      = (Inl (AccessDenied (Some ''alice'') Write ''Passwords''),
         \<lparr>db = [], log = [ListCollections (Some ''Auth'')], heap = []\<rparr>)"
proof -
  have h1: "authorization alice = User" by (simp add: alice_def)
  have h2: "role (user alice) = Member" by (simp add: alice_def)
  have h3: "suppressAuth no_options \<noteq> Some (JBool True)" by (simp add: no_options_def)
  have h4: "getDatabase ex_registry (selected alice) = Some (hd ex_registry)"
    by (simp add: getDatabase_def ex_registry_def alice_def)
  have h5: "find (\<lambda>i. name i = ''Passwords'') (collections (hd ex_registry)) = Some ex_passwords"
    by (simp add: ex_registry_def ex_notes_def ex_profiles_def ex_posts_def ex_tasks_def
          ex_passwords_def)
  have h6: "permissions ex_passwords = Some admin_permissions" by (simp add: ex_passwords_def)
  have h7: "p_write admin_permissions = ''Admin''" by (simp add: admin_permissions_def)
  have h8: "fst (checkArgs ex_store alice (JStr ''Passwords'')
                   (ArgObject (JObj [(''hashed'', JStr ''secret'')])) no_options (world0 []))
              = Inr ()"
    by (simp add: checkArgs_def checkCollectionValidity_def call_listCollections_def
          ex_store_def mem_storage_def checkOptions_def no_options_def)
  have "insert_op ex_store ex_registry ex_readings alice (JStr ''Passwords'')
          (JObj [(''hashed'', JStr ''secret'')]) no_options (world0 [])
        = (Inl (AccessDenied (uid (user alice)) Write (name ex_passwords)),
           (world0 [])\<lparr>log := log (world0 []) @ [ListCollections (selected alice)]\<rparr>)"
    using insert_denied_before_write [OF h1 h2 h3 h4 h5 h6 h7, of ex_store ex_readings
            "JObj [(''hashed'', JStr ''secret'')]" "world0 []"] h8
    by blast
  then show ?thesis
    using h1 h2 h3 h4 h5 h6 h7 h8
    by (simp add: alice_def ex_passwords_def world0_def)
qed

subsection \<open>Item normalizer\<close>

lemma insert_id_other:
  "insert_id rd item = Inr i1 \<Longrightarrow> k \<noteq> ''_id'' \<Longrightarrow> map_of i1 k = map_of item k"
  by (auto simp: insert_id_def map_of_set_prop split: if_splits jsval.splits)

lemma insert_createdDate_result:
  assumes "insert_createdDate rd i1 = Inr i2"
  shows "map_of i2 ''_createdDate'' = Some (JDate (created_time rd i1))"
    and "k \<noteq> ''_createdDate'' \<Longrightarrow> map_of i2 k = map_of i1 k"
  using assms
  by (auto simp: insert_createdDate_def created_time_def supplied_time_def map_of_set_prop
           split: if_splits jsval.splits)

lemma insert_updatedDate_result:
  assumes "insert_updatedDate rd i2 = Inr i3"
    and "map_of i2 ''_createdDate'' = Some (JDate c)"
  shows "map_of i3 ''_createdDate'' = Some (JDate c)"
    and "has_prop ''_updatedDate'' i2 \<Longrightarrow>
           map_of i3 ''_updatedDate'' = Some (JDate (supplied_time rd (get_prop i2 ''_updatedDate'')))
           \<and> \<not> date_lt (supplied_time rd (get_prop i2 ''_updatedDate'')) c"
    and "\<not> has_prop ''_updatedDate'' i2 \<Longrightarrow> map_of i3 ''_updatedDate'' = Some (JDate c)"
  using assms
  by (auto simp: insert_updatedDate_def supplied_time_def map_of_set_prop get_prop_def
                 time_value_def
           split: if_splits jsval.splits sum.splits)

lemma insert_updatedDate_rejects:
  assumes "map_of i2 ''_createdDate'' = Some (JDate c)"
    and "has_prop ''_updatedDate'' i2"
    and "date_lt (supplied_time rd (get_prop i2 ''_updatedDate'')) c"
  shows "\<exists>e. insert_updatedDate rd i2 = Inl e"
  using assms
  by (auto simp: insert_updatedDate_def supplied_time_def get_prop_def time_value_def
                 date_lt_def
           split: jsval.splits option.splits)

lemma insert_owner_other:
  "insert_owner auth callerId i3 = Inr r \<Longrightarrow> k \<noteq> ''_owner'' \<Longrightarrow> map_of r k = map_of i3 k"
  by (auto simp: insert_owner_def map_of_set_prop split: if_splits jsval.splits)

lemma validateInsertItem_stages:
  assumes "validateInsertItem auth rd item callerId = Inr r"
  obtains i1 i2 i3 where "insert_id rd item = Inr i1" and "insert_createdDate rd i1 = Inr i2"
    and "insert_updatedDate rd i2 = Inr i3" and "insert_owner auth callerId i3 = Inr r"
  using assms by (auto simp: validateInsertItem_def split: sum.splits)

lemma has_prop_cong: "map_of a k = map_of b k \<Longrightarrow> has_prop k a = has_prop k b"
  by (simp add: has_prop_def)

lemma get_prop_cong: "map_of a k = map_of b k \<Longrightarrow> get_prop a k = get_prop b k"
  by (simp add: get_prop_def)

lemma created_time_cong:
  "map_of a ''_createdDate'' = map_of b ''_createdDate'' \<Longrightarrow> created_time rd a = created_time rd b"
  by (simp add: created_time_def has_prop_def get_prop_def)

lemma valid_created_time:
  "valid_date_field rd item ''_createdDate'' \<Longrightarrow> insert_createdDate rd item = Inr i2
   \<Longrightarrow> created_time rd item \<noteq> None"
  by (auto simp: valid_date_field_def insert_createdDate_def created_time_def supplied_time_def
                 has_prop_def get_prop_def
           split: option.splits jsval.splits if_splits)

lemma valid_supplied_time:
  "valid_date_field rd item ''_updatedDate'' \<Longrightarrow> has_prop ''_updatedDate'' item
   \<Longrightarrow> insert_updatedDate rd item = Inr i3
   \<Longrightarrow> supplied_time rd (get_prop item ''_updatedDate'') \<noteq> None"
  by (auto simp: valid_date_field_def insert_updatedDate_def supplied_time_def
                 has_prop_def get_prop_def
           split: option.splits jsval.splits if_splits)

lemma valid_date_field_cong:
  "map_of a k = map_of b k \<Longrightarrow> valid_date_field rd a k = valid_date_field rd b k"
  by (simp add: valid_date_field_def)

text \<open>
  C8 (as amended). For an item whose supplied \<open>_createdDate\<close> and \<open>_updatedDate\<close>,
  when present, are valid dates (a Date with a time value, or a string the date parser
  accepts): if the supplied \<open>_updatedDate\<close> is earlier than the item's \<open>_createdDate\<close>
  (the supplied one, or the current time when none is supplied) the normalizer fails; every
  item it returns has \<open>_updatedDate >= _createdDate\<close>; and when \<open>_updatedDate\<close> is
  absent it is set to \<open>_createdDate\<close>.
\<close>

theorem validateInsertItem_date_order:
  assumes "valid_date_field rd item ''_createdDate''"
    and "valid_date_field rd item ''_updatedDate''"
  shows "(has_prop ''_updatedDate'' item
            \<and> supplied_time rd (get_prop item ''_updatedDate'') = Some u
            \<and> created_time rd item = Some c \<and> u < c
          \<longrightarrow> (\<exists>e. validateInsertItem auth rd item callerId = Inl e))
       \<and> (validateInsertItem auth rd item callerId = Inr r
          \<longrightarrow> date_ge (time_value (get_prop r ''_updatedDate''))
                       (time_value (get_prop r ''_createdDate''))
              \<and> (\<not> has_prop ''_updatedDate'' item
                  \<longrightarrow> get_prop r ''_updatedDate'' = get_prop r ''_createdDate''))"
proof (intro conjI impI)
  assume early: "has_prop ''_updatedDate'' item
            \<and> supplied_time rd (get_prop item ''_updatedDate'') = Some u
            \<and> created_time rd item = Some c \<and> u < c"
  show "\<exists>e. validateInsertItem auth rd item callerId = Inl e"
  proof (cases "validateInsertItem auth rd item callerId")
    case (Inl e)
    then show ?thesis by blast
  next
    case (Inr r')
    then obtain i1 i2 i3 where s1: "insert_id rd item = Inr i1"
      and s2: "insert_createdDate rd i1 = Inr i2"
      and s3: "insert_updatedDate rd i2 = Inr i3"
      by (rule validateInsertItem_stages)
    have c1: "map_of i1 ''_createdDate'' = map_of item ''_createdDate''"
      using s1 by (simp add: insert_id_other)
    have u1: "map_of i1 ''_updatedDate'' = map_of item ''_updatedDate''"
      using s1 by (simp add: insert_id_other)
    have cr: "map_of i2 ''_createdDate'' = Some (JDate (Some c))"
      using insert_createdDate_result(1)[OF s2] created_time_cong[OF c1] early by simp
    have u2: "map_of i2 ''_updatedDate'' = map_of item ''_updatedDate''"
      using insert_createdDate_result(2)[OF s2, of "''_updatedDate''"] u1 by simp
    have "has_prop ''_updatedDate'' i2"
      using early has_prop_cong[OF u2] by simp
    moreover have "date_lt (supplied_time rd (get_prop i2 ''_updatedDate'')) (Some c)"
      using early get_prop_cong[OF u2] by (simp add: date_lt_def)
    ultimately have "\<exists>e. insert_updatedDate rd i2 = Inl e"
      using cr insert_updatedDate_rejects by blast
    with s3 show ?thesis by simp
  qed
next
  assume ok: "validateInsertItem auth rd item callerId = Inr r"
  then obtain i1 i2 i3 where s1: "insert_id rd item = Inr i1"
    and s2: "insert_createdDate rd i1 = Inr i2"
    and s3: "insert_updatedDate rd i2 = Inr i3"
    and s4: "insert_owner auth callerId i3 = Inr r"
    by (rule validateInsertItem_stages)
  have c1: "map_of i1 ''_createdDate'' = map_of item ''_createdDate''"
    using s1 by (simp add: insert_id_other)
  have u1: "map_of i1 ''_updatedDate'' = map_of item ''_updatedDate''"
    using s1 by (simp add: insert_id_other)
  have "valid_date_field rd i1 ''_createdDate''"
    using assms(1) valid_date_field_cong[OF c1] by simp
  then obtain c where c: "created_time rd i1 = Some c"
    using valid_created_time[OF _ s2] by blast
  have cr: "map_of i2 ''_createdDate'' = Some (JDate (Some c))"
    using insert_createdDate_result(1)[OF s2] c by simp
  have u2: "map_of i2 ''_updatedDate'' = map_of item ''_updatedDate''"
    using insert_createdDate_result(2)[OF s2, of "''_updatedDate''"] u1 by simp
  have r_created: "get_prop r ''_createdDate'' = JDate (Some c)"
    using insert_updatedDate_result(1)[OF s3 cr] insert_owner_other[OF s4, of "''_createdDate''"]
    by (simp add: get_prop_def)
  have r_updated: "map_of r ''_updatedDate'' = map_of i3 ''_updatedDate''"
    using insert_owner_other[OF s4, of "''_updatedDate''"] by simp
  show "date_ge (time_value (get_prop r ''_updatedDate''))
                (time_value (get_prop r ''_createdDate''))"
  proof (cases "has_prop ''_updatedDate'' i2")
    case True
    have "valid_date_field rd i2 ''_updatedDate''"
      using assms(2) valid_date_field_cong[OF u2] by simp
    then obtain t where t: "supplied_time rd (get_prop i2 ''_updatedDate'') = Some t"
      using valid_supplied_time[OF _ True s3] by blast
    from insert_updatedDate_result(2)[OF s3 cr True] t
    have "map_of i3 ''_updatedDate'' = Some (JDate (Some t))" and "\<not> date_lt (Some t) (Some c)"
      by simp_all
    then show ?thesis
      using r_created r_updated
      by (simp add: get_prop_def time_value_def date_ge_def date_lt_def)
  next
    case False
    from insert_updatedDate_result(3)[OF s3 cr False]
    show ?thesis
      using r_created r_updated
      by (simp add: get_prop_def time_value_def date_ge_def)
  qed
  show "get_prop r ''_updatedDate'' = get_prop r ''_createdDate''"
    if absent: "\<not> has_prop ''_updatedDate'' item"
  proof -
    have "\<not> has_prop ''_updatedDate'' i2"
      using absent has_prop_cong[OF u2] by simp
    from insert_updatedDate_result(3)[OF s3 cr this]
    show ?thesis using r_created r_updated by (simp add: get_prop_def)
  qed
qed

text \<open>
  Without the restriction to valid dates the ordering is not guaranteed: an Invalid Date
  passes the \<open>date < item._createdDate\<close> guard, since every comparison with it is
  false, and the returned item's \<open>_updatedDate\<close> is not \<open>>=\<close> its \<open>_createdDate\<close>.
\<close>

theorem validateInsertItem_invalid_date_counterexample:
  "validateInsertItem User (ex_readings 0) [(''_updatedDate'', JDate None)] (Some ''alice'')
     = Inr [(''_updatedDate'', JDate None), (''_id'', JStr ''generated-id''),
            (''_createdDate'', JDate (Some 5000)), (''_owner'', JStr ''alice'')]
   \<and> \<not> date_ge (time_value (JDate None)) (time_value (JDate (Some 5000)))"
  by (simp add: validateInsertItem_def insert_id_def insert_createdDate_def
        insert_updatedDate_def insert_owner_def has_prop_def get_prop_def ex_readings_def
        date_lt_def date_ge_def time_value_def str_or_undefined_def)

theorem validateInsertItem_date_order_witness:
  "valid_date_field (ex_readings 0)
      [(''_createdDate'', JStr ''1970-01-01T00:00:09.000Z''),
       (''_updatedDate'', JStr ''1970-01-01T00:00:01.000Z'')] ''_createdDate''
   \<and> valid_date_field (ex_readings 0)
      [(''_createdDate'', JStr ''1970-01-01T00:00:09.000Z''),
       (''_updatedDate'', JStr ''1970-01-01T00:00:01.000Z'')] ''_updatedDate''
   \<and> has_prop ''_updatedDate''
      [(''_createdDate'', JStr ''1970-01-01T00:00:09.000Z''),
       (''_updatedDate'', JStr ''1970-01-01T00:00:01.000Z'')]
   \<and> supplied_time (ex_readings 0) (JStr ''1970-01-01T00:00:01.000Z'') = Some 1000
   \<and> created_time (ex_readings 0)
      [(''_createdDate'', JStr ''1970-01-01T00:00:09.000Z''),
       (''_updatedDate'', JStr ''1970-01-01T00:00:01.000Z'')] = Some 9000
   \<and> (1000 :: int) < 9000
   \<and> (\<exists>e. validateInsertItem User (ex_readings 0)
            [(''_createdDate'', JStr ''1970-01-01T00:00:09.000Z''),
             (''_updatedDate'', JStr ''1970-01-01T00:00:01.000Z'')] (Some ''alice'') = Inl e)
   \<and> valid_date_field (ex_readings 0) [(''name'', JStr ''A'')] ''_createdDate''
   \<and> valid_date_field (ex_readings 0) [(''name'', JStr ''A'')] ''_updatedDate''
   \<and> \<not> has_prop ''_updatedDate'' [(''name'', JStr ''A'')]
   \<and> validateInsertItem User (ex_readings 0) [(''name'', JStr ''A'')] (Some ''alice'')
       = Inr [(''name'', JStr ''A''), (''_id'', JStr ''generated-id''),
              (''_createdDate'', JDate (Some 5000)), (''_updatedDate'', JDate (Some 5000)),
              (''_owner'', JStr ''alice'')]
   \<and> date_ge (time_value (JDate (Some 5000))) (time_value (JDate (Some 5000)))"
proof -
  let ?early = "[(''_createdDate'', JStr ''1970-01-01T00:00:09.000Z''),
                 (''_updatedDate'', JStr ''1970-01-01T00:00:01.000Z'')]"
  let ?plain = "[(''name'', JStr ''A'')]"
  let ?result = "[(''name'', JStr ''A''), (''_id'', JStr ''generated-id''),
              (''_createdDate'', JDate (Some 5000)), (''_updatedDate'', JDate (Some 5000)),
              (''_owner'', JStr ''alice'')]"
  have a1: "valid_date_field (ex_readings 0) ?early ''_createdDate''"
    by (simp add: valid_date_field_def ex_readings_def ex_parse_date_def)
  have a2: "valid_date_field (ex_readings 0) ?early ''_updatedDate''"
    by (simp add: valid_date_field_def ex_readings_def ex_parse_date_def)
  have a3: "has_prop ''_updatedDate'' ?early"
    by (simp add: has_prop_def)
  have a4: "supplied_time (ex_readings 0) (get_prop ?early ''_updatedDate'') = Some 1000"
    by (simp add: supplied_time_def get_prop_def ex_readings_def ex_parse_date_def)
  have a5: "created_time (ex_readings 0) ?early = Some 9000"
    by (simp add: created_time_def supplied_time_def has_prop_def get_prop_def
          ex_readings_def ex_parse_date_def)
  have a6: "(1000 :: int) < 9000" by simp
  have fails: "\<exists>e. validateInsertItem User (ex_readings 0) ?early (Some ''alice'') = Inl e"
    using validateInsertItem_date_order [OF a1 a2, of 1000 9000 User "Some ''alice''" "[]"]
          a3 a4 a5 a6
    by blast
  have b1: "valid_date_field (ex_readings 0) ?plain ''_createdDate''"
    by (simp add: valid_date_field_def)
  have b2: "valid_date_field (ex_readings 0) ?plain ''_updatedDate''"
    by (simp add: valid_date_field_def)
  have b3: "\<not> has_prop ''_updatedDate'' ?plain"
    by (simp add: has_prop_def)
  have b4: "validateInsertItem User (ex_readings 0) ?plain (Some ''alice'') = Inr ?result"
    by (simp add: validateInsertItem_def insert_id_def insert_createdDate_def
          insert_updatedDate_def insert_owner_def has_prop_def get_prop_def ex_readings_def
          str_or_undefined_def)
  have ordered: "date_ge (time_value (get_prop ?result ''_updatedDate''))
                         (time_value (get_prop ?result ''_createdDate''))"
    using validateInsertItem_date_order [OF b1 b2, of 0 0 User "Some ''alice''" ?result] b4
    by blast
  have a4': "supplied_time (ex_readings 0) (JStr ''1970-01-01T00:00:01.000Z'') = Some 1000"
    using a4 by (simp add: get_prop_def)
  have ordered': "date_ge (time_value (JDate (Some 5000))) (time_value (JDate (Some 5000)))"
    using ordered by (simp add: get_prop_def)
  show ?thesis
    using a1 a2 a3 a4' a5 a6 fails b1 b2 b3 b4 ordered' by blast
qed

subsection \<open>Running the operations on the example collections\<close>

lemmas ex_collections =
  ex_registry_def ex_notes_def ex_profiles_def ex_posts_def ex_tasks_def ex_passwords_def
  ex_drafts_def

lemmas precheck_defs =
  checkArgs_def checkCollectionValidity_def call_listCollections_def ex_store_def
  mem_storage_def checkOptions_def no_options_def prepareEvent_def getDatabase_def
  declared_permission_def access_field_def owned_permissions_def authUser_def alice_def
  world0_def make_context_def catch_report_def hooks_enabled_def no_hooks_def Let_def

lemmas normalizer_defs =
  validateInsertItem_def insert_id_def insert_createdDate_def insert_updatedDate_def
  insert_owner_def validateUpdateItem_def has_prop_def get_prop_def delete_prop_def
  ex_readings_def date_lt_def time_value_def str_or_undefined_def lower_char_def
  toLowerCase_def


text \<open>
  C3. A schema field declared \<open>required: true\<close> without a default should make
  \<open>insert\<close> of an item lacking it fail before anything is written, and with a default
  the persisted item should carry the default. \<open>insert\<close> calls the schema validator
  without the \<open>operation\<close> argument, so neither rule runs: on \<open>Profiles\<close> (\<open>hashed\<close>
  required, no default) the item is written without \<open>hashed\<close>, and on \<open>Drafts\<close>
  (\<open>status\<close> required, default \<open>'new'\<close>) it is written without \<open>status\<close>. The same
  validator called with \<open>Insert\<close>, as \<open>save\<close> does, rejects the first item and fills in
  the second.
\<close>

theorem insert_skips_required_fields:
  "insert_op ex_store ex_registry ex_readings alice (JStr ''Profiles'')
     (JObj [(''name'', JStr ''A'')]) no_options (world0 [])
   = (Inr (JObj [(''name'', JStr ''A''), (''_id'', JStr ''generated-id''),
                 (''_createdDate'', JDate (Some 5000)), (''_updatedDate'', JDate (Some 5000)),
                 (''_owner'', JStr ''alice'')]),
      \<lparr>db = [[(''name'', JStr ''A''), (''_id'', JStr ''generated-id''),
               (''_createdDate'', JDate (Some 5000)), (''_updatedDate'', JDate (Some 5000)),
               (''_owner'', JStr ''alice'')]],
       log = [ListCollections (Some ''Auth''),
              InsertOne (Some ''Auth'', ''Profiles'')
                [(''name'', JStr ''A''), (''_id'', JStr ''generated-id''),
                 (''_createdDate'', JDate (Some 5000)), (''_updatedDate'', JDate (Some 5000)),
                 (''_owner'', JStr ''alice'')],
              FindOne (Some ''Auth'', ''Profiles'') [(''_id'', JStr ''generated-id'')]],
       heap = []\<rparr>)
   \<and> validateItemSchema (JObj [(''name'', JStr ''A'')]) (schema ex_profiles) (Some Insert)
       = Inl (MissingRequiredProperty ''hashed'')
   \<and> fst (insert_op ex_store ex_registry ex_readings alice (JStr ''Drafts'')
             (JObj [(''name'', JStr ''A'')]) no_options (world0 []))
       = Inr (JObj [(''name'', JStr ''A''), (''_id'', JStr ''generated-id''),
                    (''_createdDate'', JDate (Some 5000)), (''_updatedDate'', JDate (Some 5000)),
                    (''_owner'', JStr ''alice'')])
   \<and> validateItemSchema (JObj [(''name'', JStr ''A'')]) (schema ex_drafts) (Some Insert)
       = Inr [(''name'', JStr ''A''), (''status'', JStr ''new'')]"
  by (simp add: insert_op_def insert_try_def beforeInsert_def afterInsert_def
        validateItemSchema_def validateProperty_def in_object_def read_prop_def
        object_prototype_names_def hashed_required_def status_defaulted_def
        schemaTypes_def
        call_insertOne_def call_findOne_def matches_def
        precheck_defs normalizer_defs ex_collections)


text \<open>
  C4. When the before-update hook returns another object, the \<open>$set\<close> payload sent to
  \<open>updateOne\<close> should be that replacement after normalization and validation.
  \<open>update\<close> builds the criteria from \<open>finalItem\<close> but sends \<open>{ $set: item }\<close>: the
  object the caller passed in. On \<open>Posts\<close>, whose hook returns a new object with the
  title \<open>from hook\<close>, the store receives the title \<open>original\<close>.
\<close>

theorem update_writes_original_item:
  "update_op ex_store ex_registry ex_readings alice (JStr ''Posts'')
     (JObj [(''_id'', JStr ''p1''), (''title'', JStr ''original'')]) no_options
     (world0 [[(''_id'', JStr ''p1''), (''_owner'', JStr ''alice''), (''title'', JStr ''old'')]])
   = (Inr (JStr ''p1''),
      \<lparr>db = [[(''_id'', JStr ''p1''), (''_owner'', JStr ''alice''),
               (''title'', JStr ''original''), (''_updatedDate'', JDate (Some 5000))]],
       log = [ListCollections (Some ''Auth''),
              UpdateOne (Some ''Auth'', ''Posts'')
                [(''_id'', JStr ''p1''), (''_owner'', JStr ''alice'')]
                [(''$set'', JObj [(''_id'', JStr ''p1''), (''title'', JStr ''original''),
                                  (''_updatedDate'', JDate (Some 5000))])]],
       heap = []\<rparr>)
   \<and> beforeUpdate ex_readings (beforeUpdateHook (hooks ex_posts))
        [(''_id'', JStr ''p1''), (''title'', JStr ''original'')] (make_context ex_posts alice)
        no_options
       = Inr ([(''_id'', JStr ''p1''), (''title'', JStr ''original''),
               (''_updatedDate'', JDate (Some 5000))],
              [(''_id'', JStr ''p1''), (''title'', JStr ''from hook''),
               (''_updatedDate'', JDate (Some 5001))])"
  by (simp add: update_op_def update_try_def beforeUpdate_def afterUpdate_def id_event_def
        rename_hook_def validateItemSchema_def call_updateOne_def matches_def spread_def
        owner_scope_def precheck_defs normalizer_defs ex_collections)


text \<open>
  C9. After a successful \<open>deleteOne\<close> the collection's \<open>afterRemove\<close> hook should be
  called with the removed id and its string result returned. \<open>remove\<close> hands
  \<open>collection.hooks?.beforeRemove\<close> to the after-remove event, so on \<open>Tasks\<close> the
  before-hook runs a second time and \<open>afterRemove\<close> is never called.
\<close>

theorem remove_runs_beforeRemove_twice:
  "remove_op ex_store ex_registry alice (JStr ''Tasks'') (JStr ''t1'') no_options
     (world0 [[(''_id'', JStr ''t1+before''), (''_owner'', JStr ''alice'')]])
   = (Inr (JStr ''t1+before+before''),
      \<lparr>db = [],
       log = [ListCollections (Some ''Auth''),
              DeleteOne (Some ''Auth'', ''Tasks'')
                [(''_id'', JStr ''t1+before''), (''_owner'', JStr ''alice'')]],
       heap = []\<rparr>)
   \<and> afterRemove (afterRemoveHook (hooks ex_tasks)) (JStr ''t1+before'')
         (make_context ex_tasks alice) no_options
       = Inr (JStr ''t1+before+after'')"
  by (simp add: remove_op_def remove_try_def beforeRemove_def afterRemove_def id_event_def
        mark_before_def mark_after_def call_deleteOne_def matches_def spread_def
        owner_scope_def str_or_undefined_def get_prop_def precheck_defs ex_collections)


subsection \<open>Owner scoping\<close>

text \<open>The criteria of \<open>getItem\<close>, \<open>remove\<close> and \<open>update\<close> put \<open>_owner\<close> after the
  id, so under Owned-Items they always carry the caller's id. \<open>find\<close> and \<open>count\<close>
  spread the caller's filter after \<open>_owner\<close>, so an \<open>_owner\<close> entry of the filter
  replaces the caller's id.\<close>


lemma map_of_spread: "map_of (spread base src) = map_of base ++ map_of (rev src)"
proof (induction src arbitrary: base)
  case Nil
  then show ?case by (simp add: spread_def)
next
  case (Cons kv src)
  have "map_of (spread base (kv # src))
          = map_of (spread (set_prop (fst kv) (snd kv) base) src)"
    by (simp add: spread_def)
  also have "\<dots> = map_of (set_prop (fst kv) (snd kv) base) ++ map_of (rev src)"
    by (rule Cons.IH)
  also have "\<dots> = (map_of base)(fst kv \<mapsto> snd kv) ++ map_of (rev src)"
    by (simp only: map_of_set_prop)
  also have "\<dots> = map_of base ++ map_of (rev (kv # src))"
    by (cases kv) (simp add: fun_eq_iff map_add_def split: option.splits)
  finally show ?case .
qed

lemma crud_criteria_owner_scoped:
  "get_prop (spread [(''_id'', x)] (owner_scope OwnedItems ctx)) ''_owner''
     = str_or_undefined (userId ctx)"
  by (simp add: owner_scope_def spread_def get_prop_def)

lemma scoped_filter_caller_owner_wins:
  assumes "suppressAuth opts \<noteq> Some (JBool True)" and "distinct (map fst flt)"
    and "map_of flt ''_owner'' = Some v"
  shows "get_prop (scoped_filter opts OwnedItems ctx flt) ''_owner'' = v"
proof -
  have "map_of (rev flt) = map_of flt"
    using assms(2) by (simp add: distinct_map map_of_inject_set inj_on_def)
  then show ?thesis
    using assms(1,3) by (simp add: scoped_filter_def get_prop_def map_of_spread)
qed


text \<open>
  C1. On a collection whose read permission is \<open>MemberAuthor\<close>, every read by a
  logged-in \<open>User\<close>-mode caller should be scoped to \<open>_owner = callerId\<close>, whatever
  filter the caller supplies. Alice builds the filter \<open>eq('_owner', 'bob')\<close> and runs
  \<open>find\<close> and \<open>count\<close> on \<open>Notes\<close>: the filter sent to the store is
  \<open>{ _owner: { $eq: 'bob' } }\<close>, without her id, and Bob's note is returned and counted.
  \<open>getItem\<close> on the same note is scoped and finds nothing.
\<close>

theorem find_owner_filter_overrides_scope:
  "query ex_registry alice ''Notes'' = Inr notes_query
   \<and> new_DataFilter (world0 [bobs_note])
       = (\<lparr>queryObject = 0\<rparr>, \<lparr>db = [bobs_note], log = [], heap = [[]]\<rparr>)
   \<and> eq_filter \<lparr>queryObject = 0\<rparr> (JStr ''_owner'') (JStr ''bob'') JUndefined
         \<lparr>db = [bobs_note], log = [], heap = [[]]\<rparr>
       = Inr \<lparr>db = [bobs_note], log = [],
              heap = [[(''_owner'', JObj [(''$eq'', JStr ''bob'')])]]\<rparr>
   \<and> find_op ex_store (filter_op notes_query \<lparr>queryObject = 0\<rparr>) no_options
         \<lparr>db = [bobs_note], log = [],
          heap = [[(''_owner'', JObj [(''$eq'', JStr ''bob'')])]]\<rparr>
       = (Inr \<lparr>totalCount = 1, pages = 1, pageSize = 100, items = [bobs_note]\<rparr>,
          (filter_op notes_query \<lparr>queryObject = 0\<rparr>,
           \<lparr>db = [bobs_note],
            log = [ListCollections (Some ''Auth''),
                   CountDocuments (Some ''Auth'', ''Notes'')
                     (JObj [(''_owner'', JObj [(''$eq'', JStr ''bob'')])]),
                   Find (Some ''Auth'', ''Notes'') [(''_owner'', JObj [(''$eq'', JStr ''bob'')])]
                     \<lparr>sort = [], projection = [], limit = 100, skip = 0\<rparr>],
            heap = [[(''_owner'', JObj [(''$eq'', JStr ''bob'')])]]\<rparr>))
   \<and> count_op ex_store (filter_op notes_query \<lparr>queryObject = 0\<rparr>) no_options
         \<lparr>db = [bobs_note], log = [],
          heap = [[(''_owner'', JObj [(''$eq'', JStr ''bob'')])]]\<rparr>
       = (Inr 1,
          \<lparr>db = [bobs_note],
           log = [ListCollections (Some ''Auth''),
                  CountDocuments (Some ''Auth'', ''Notes'')
                    (JObj [(''_owner'', JObj [(''$eq'', JStr ''bob'')])])],
           heap = [[(''_owner'', JObj [(''$eq'', JStr ''bob'')])]]\<rparr>)
   \<and> fst (getItem ex_store ex_registry alice (JStr ''Notes'') (JStr ''n1'') no_options
            (world0 [bobs_note])) = Inr JNull"
proof -
  have a: "query ex_registry alice ''Notes'' = Inr notes_query"
    by (simp add: query_def notes_query_def getDatabase_def alice_def ex_collections)
  have b: "new_DataFilter (world0 [bobs_note])
       = (\<lparr>queryObject = 0\<rparr>, \<lparr>db = [bobs_note], log = [], heap = [[]]\<rparr>)"
    by (simp add: new_DataFilter_def world0_def)
  have c: "eq_filter \<lparr>queryObject = 0\<rparr> (JStr ''_owner'') (JStr ''bob'') JUndefined
         \<lparr>db = [bobs_note], log = [], heap = [[]]\<rparr>
       = Inr \<lparr>db = [bobs_note], log = [],
              heap = [[(''_owner'', JObj [(''$eq'', JStr ''bob'')])]]\<rparr>"
    by (simp add: eq_filter_def checkProperty_def eq_options_error_def eq_caseSensitive_def
          assign_prop_def get_prop_def)
  have d: "find_op ex_store (filter_op notes_query \<lparr>queryObject = 0\<rparr>) no_options
         \<lparr>db = [bobs_note], log = [],
          heap = [[(''_owner'', JObj [(''$eq'', JStr ''bob'')])]]\<rparr>
       = (Inr \<lparr>totalCount = 1, pages = 1, pageSize = 100, items = [bobs_note]\<rparr>,
          (filter_op notes_query \<lparr>queryObject = 0\<rparr>,
           \<lparr>db = [bobs_note],
            log = [ListCollections (Some ''Auth''),
                   CountDocuments (Some ''Auth'', ''Notes'')
                     (JObj [(''_owner'', JObj [(''$eq'', JStr ''bob'')])]),
                   Find (Some ''Auth'', ''Notes'') [(''_owner'', JObj [(''$eq'', JStr ''bob'')])]
                     \<lparr>sort = [], projection = [], limit = 100, skip = 0\<rparr>],
            heap = [[(''_owner'', JObj [(''$eq'', JStr ''bob'')])]]\<rparr>))"
    by (simp add: find_op_def find_try_def filter_op_def filter_get_def notes_query_def
          prepareEvent_query_def checkCollectionValidity_query_def call_listCollections_def
          authUser_query_def scoped_filter_def query_context_def q_target_def deref_def
          spread_def matches_def get_prop_def bobs_note_def catch_report_def
          ex_store_def mem_storage_def no_options_def owned_permissions_def alice_def
          str_or_undefined_def Let_def ex_collections)
  have e: "count_op ex_store (filter_op notes_query \<lparr>queryObject = 0\<rparr>) no_options
         \<lparr>db = [bobs_note], log = [],
          heap = [[(''_owner'', JObj [(''$eq'', JStr ''bob'')])]]\<rparr>
       = (Inr 1,
          \<lparr>db = [bobs_note],
           log = [ListCollections (Some ''Auth''),
                  CountDocuments (Some ''Auth'', ''Notes'')
                    (JObj [(''_owner'', JObj [(''$eq'', JStr ''bob'')])])],
           heap = [[(''_owner'', JObj [(''$eq'', JStr ''bob'')])]]\<rparr>)"
    by (simp add: count_op_def count_try_def filter_op_def filter_get_def notes_query_def
          prepareEvent_query_def checkCollectionValidity_query_def call_listCollections_def
          authUser_query_def query_context_def q_target_def deref_def
          spread_def matches_def get_prop_def bobs_note_def catch_report_def
          ex_store_def mem_storage_def no_options_def owned_permissions_def alice_def
          str_or_undefined_def Let_def ex_collections)
  have f: "fst (getItem ex_store ex_registry alice (JStr ''Notes'') (JStr ''n1'') no_options
            (world0 [bobs_note])) = Inr JNull"
    by (simp add: getItem_def getItem_try_def beforeGetItem_def id_event_def
          call_findOne_def matches_def spread_def owner_scope_def str_or_undefined_def
          get_prop_def bobs_note_def precheck_defs ex_collections)
  from a b c d e f show ?thesis by blast
qed

subsection \<open>The filter handed to a query executor\<close>

lemma prepareEvent_query_frame:
  assumes "prepareEvent_query S q opts w = (r, w')"
  shows "w' = w\<lparr>log := log w @ [ListCollections (Some (dbName (q_database q)))]\<rparr>"
  using assms
  by (auto simp: prepareEvent_query_def checkCollectionValidity_query_def
                 call_listCollections_def Let_def
           split: sum.splits if_splits)

lemma gte_frame:
  assumes "gte f property v w = Inr w'" and "a \<noteq> queryObject f"
  shows "deref w' a = deref w a"
  using assms
  by (auto simp: gte_def assign_prop_def deref_def split: option.splits)

lemma eq_filter_frame:
  assumes "eq_filter f property v opts w = Inr w'" and "a \<noteq> queryObject f"
  shows "deref w' a = deref w a"
  using assms
  by (auto simp: eq_filter_def assign_prop_def deref_def split: option.splits if_splits)

lemma find_try_heap:
  "take (length (heap w)) (heap (snd (snd (find_try S q opts w)))) = heap w"
proof -
  obtain q1 w1 where
    q1: "q1 = (case q_filter q of None \<Rightarrow> q\<lparr>q_filter := Some (length (heap w))\<rparr> | Some a \<Rightarrow> q)"
    and w1: "w1 = (case q_filter q of None \<Rightarrow> w\<lparr>heap := heap w @ [[]]\<rparr> | Some a \<Rightarrow> w)"
    by blast
  obtain r w2 where pe: "prepareEvent_query S q1 opts w1 = (r, w2)"
    by (cases "prepareEvent_query S q1 opts w1")
  have h2: "heap w2 = heap w1"
    using prepareEvent_query_frame[OF pe] by simp
  have h1: "take (length (heap w)) (heap w1) = heap w"
    using w1 by (simp split: option.splits)
  have "heap (snd (snd (find_try S q opts w))) = heap w2"
    using pe q1 w1
    by (auto simp: find_try_def Let_def split: sum.splits)
  with h1 h2 show ?thesis by simp
qed

text \<open>
  C5 (as amended). \<open>DataQuery.filter\<close> keeps a reference to the builder's filter object,
  not a copy. The filter that \<open>find\<close> and \<open>count\<close> send to the store is the content
  of that object when they run (with \<open>_owner\<close> added under Owned-Items), so operator
  calls made on the builder after the hand-off are part of it. Handing the same builder to
  a second executor gives it the same reference, and running an executor leaves every
  existing filter object as it was.
\<close>

theorem find_sends_live_filter:
  assumes "prepareEvent_query S (filter_op q f) opts w = (Inr permission, w')"
  shows "log (snd (snd (find_op S (filter_op q f) opts w)))
           = log w @ [ListCollections (Some (dbName (q_database q))),
                      CountDocuments (q_target q)
                        (JObj (scoped_filter opts permission (query_context q)
                                 (deref w (queryObject f)))),
                      Find (q_target q)
                        (scoped_filter opts permission (query_context q)
                           (deref w (queryObject f))) (q_cursor q)]
       \<and> log (snd (count_op S (filter_op q f) opts w))
           = log w @ [ListCollections (Some (dbName (q_database q))),
                      CountDocuments (q_target q)
                        (JObj (scoped_filter opts permission (query_context q)
                                 (deref w (queryObject f))))]
       \<and> q_filter (filter_op q2 f) = q_filter (filter_op q f)
       \<and> take (length (heap w)) (heap (snd (snd (find_op S q2 opts w)))) = heap w
       \<and> heap (snd (count_op S q2 opts w)) = heap w"
proof -
  have w': "w' = w\<lparr>log := log w @ [ListCollections (Some (dbName (q_database (filter_op q f))))]\<rparr>"
    using assms by (rule prepareEvent_query_frame)
  have fields: "q_database (filter_op q f) = q_database q"
    "q_cursor (filter_op q f) = q_cursor q"
    "q_target (filter_op q f) = q_target q"
    "query_context (filter_op q f) = query_context q"
    "q_filter (filter_op q f) = Some (queryObject f)"
    by (simp_all add: filter_op_def q_target_def query_context_def filter_get_def)
  have one: "log (snd (snd (find_try S (filter_op q f) opts w)))
           = log w @ [ListCollections (Some (dbName (q_database q))),
                      CountDocuments (q_target q)
                        (JObj (scoped_filter opts permission (query_context q)
                                 (deref w (queryObject f)))),
                      Find (q_target q)
                        (scoped_filter opts permission (query_context q)
                           (deref w (queryObject f))) (q_cursor q)]"
    using assms w' fields
    by (auto simp: find_try_def Let_def deref_def split: sum.splits)
  have two: "log (snd (count_try S (filter_op q f) opts w))
           = log w @ [ListCollections (Some (dbName (q_database q))),
                      CountDocuments (q_target q)
                        (JObj (scoped_filter opts permission (query_context q)
                                 (deref w (queryObject f))))]"
    using assms w' fields
    by (auto simp: count_try_def Let_def deref_def scoped_filter_def split: sum.splits)
  have three: "q_filter (filter_op q2 f) = q_filter (filter_op q f)"
    by (simp add: filter_op_def)
  have four: "take (length (heap w)) (heap (snd (snd (find_try S q2 opts w)))) = heap w"
    by (rule find_try_heap)
  obtain r5 w5 where pe5: "prepareEvent_query S q2 opts w = (r5, w5)"
    by (cases "prepareEvent_query S q2 opts w")
  have five: "heap (snd (count_try S q2 opts w)) = heap w"
    using pe5 prepareEvent_query_frame[OF pe5]
    by (auto simp: count_try_def Let_def split: sum.splits)
  have cr: "\<And>c op ctx (r :: (error + 'x) \<times> 'y). snd (catch_report c opts op ctx r) = snd r"
    by (auto simp: catch_report_def split: prod.splits sum.splits)
  show ?thesis
    using one two three four five
    by (simp add: find_op_def count_op_def cr)
qed

lemmas query_eval_defs =
  find_op_def find_try_def count_op_def count_try_def filter_op_def filter_get_def
  notes_query_def prepareEvent_query_def checkCollectionValidity_query_def
  call_listCollections_def authUser_query_def scoped_filter_def query_context_def
  q_target_def deref_def spread_def matches_def get_prop_def catch_report_def ex_store_def
  mem_storage_def no_options_def owned_permissions_def alice_def str_or_undefined_def Let_def

theorem find_sends_live_filter_witness:
  "prepareEvent_query ex_store (filter_op notes_query \<lparr>queryObject = 0\<rparr>) no_options
      \<lparr>db = [], log = [],
       heap = [[(''age'', JObj [(''$gte'', JNum 18)]), (''score'', JObj [(''$gte'', JNum 5)])]]\<rparr>
     = (Inr OwnedItems,
        \<lparr>db = [], log = [ListCollections (Some ''Auth'')],
         heap = [[(''age'', JObj [(''$gte'', JNum 18)]), (''score'', JObj [(''$gte'', JNum 5)])]]\<rparr>)
   \<and> log (snd (snd (find_op ex_store (filter_op notes_query \<lparr>queryObject = 0\<rparr>) no_options
        \<lparr>db = [], log = [],
         heap = [[(''age'', JObj [(''$gte'', JNum 18)]),
                  (''score'', JObj [(''$gte'', JNum 5)])]]\<rparr>)))
     = [ListCollections (Some ''Auth''),
        CountDocuments (Some ''Auth'', ''Notes'')
          (JObj [(''_owner'', JStr ''alice''), (''age'', JObj [(''$gte'', JNum 18)]),
                 (''score'', JObj [(''$gte'', JNum 5)])]),
        Find (Some ''Auth'', ''Notes'')
          [(''_owner'', JStr ''alice''), (''age'', JObj [(''$gte'', JNum 18)]),
           (''score'', JObj [(''$gte'', JNum 5)])]
          \<lparr>sort = [], projection = [], limit = 100, skip = 0\<rparr>]"
proof -
  let ?w = "\<lparr>db = ([] :: obj list), log = [],
       heap = [[(''age'', JObj [(''$gte'', JNum 18)]), (''score'', JObj [(''$gte'', JNum 5)])]]\<rparr>"
  have h: "prepareEvent_query ex_store (filter_op notes_query \<lparr>queryObject = 0\<rparr>) no_options ?w
     = (Inr OwnedItems, ?w\<lparr>log := [ListCollections (Some ''Auth'')]\<rparr>)"
    by (simp add: query_eval_defs ex_collections)
  have "log (snd (snd (find_op ex_store (filter_op notes_query \<lparr>queryObject = 0\<rparr>) no_options ?w)))
          = log ?w @ [ListCollections (Some (dbName (q_database notes_query))),
                      CountDocuments (q_target notes_query)
                        (JObj (scoped_filter no_options OwnedItems (query_context notes_query)
                                 (deref ?w (queryObject \<lparr>queryObject = 0\<rparr>)))),
                      Find (q_target notes_query)
                        (scoped_filter no_options OwnedItems (query_context notes_query)
                           (deref ?w (queryObject \<lparr>queryObject = 0\<rparr>))) (q_cursor notes_query)]"
    using find_sends_live_filter [OF h, of notes_query] by blast
  then show ?thesis
    using h
    by (simp add: notes_query_def scoped_filter_def query_context_def q_target_def deref_def
          spread_def no_options_def alice_def str_or_undefined_def ex_collections)
qed

text \<open>
  The executor does not hold a snapshot: a builder receives \<open>gte('age', 18)\<close> and is
  handed to an executor; run at that point, the executor sends the filter with \<open>age\<close>
  only. After \<open>gte('score', 5)\<close> on the same builder, the same executor sends a filter
  that also constrains \<open>score\<close>.
\<close>

theorem filter_is_not_a_snapshot_counterexample:
  "gte \<lparr>queryObject = 0\<rparr> (JStr ''age'') (JNum 18) \<lparr>db = ([] :: obj list), log = [], heap = [[]]\<rparr>
     = Inr \<lparr>db = [], log = [], heap = [[(''age'', JObj [(''$gte'', JNum 18)])]]\<rparr>
   \<and> q_filter (filter_op notes_query \<lparr>queryObject = 0\<rparr>) = Some 0
   \<and> fst (snd (find_op ex_store (filter_op notes_query \<lparr>queryObject = 0\<rparr>) no_options
        \<lparr>db = [], log = [], heap = [[(''age'', JObj [(''$gte'', JNum 18)])]]\<rparr>))
      = filter_op notes_query \<lparr>queryObject = 0\<rparr>
   \<and> log (snd (snd (find_op ex_store (filter_op notes_query \<lparr>queryObject = 0\<rparr>) no_options
        \<lparr>db = [], log = [], heap = [[(''age'', JObj [(''$gte'', JNum 18)])]]\<rparr>)))
      = [ListCollections (Some ''Auth''),
         CountDocuments (Some ''Auth'', ''Notes'')
           (JObj [(''_owner'', JStr ''alice''), (''age'', JObj [(''$gte'', JNum 18)])]),
         Find (Some ''Auth'', ''Notes'')
           [(''_owner'', JStr ''alice''), (''age'', JObj [(''$gte'', JNum 18)])]
           \<lparr>sort = [], projection = [], limit = 100, skip = 0\<rparr>]
   \<and> gte \<lparr>queryObject = 0\<rparr> (JStr ''score'') (JNum 5)
        \<lparr>db = ([] :: obj list), log = [], heap = [[(''age'', JObj [(''$gte'', JNum 18)])]]\<rparr>
     = Inr \<lparr>db = [], log = [],
            heap = [[(''age'', JObj [(''$gte'', JNum 18)]),
                     (''score'', JObj [(''$gte'', JNum 5)])]]\<rparr>
   \<and> log (snd (snd (find_op ex_store (filter_op notes_query \<lparr>queryObject = 0\<rparr>) no_options
        \<lparr>db = [], log = [],
         heap = [[(''age'', JObj [(''$gte'', JNum 18)]),
                  (''score'', JObj [(''$gte'', JNum 5)])]]\<rparr>)))
      = [ListCollections (Some ''Auth''),
         CountDocuments (Some ''Auth'', ''Notes'')
           (JObj [(''_owner'', JStr ''alice''), (''age'', JObj [(''$gte'', JNum 18)]),
                  (''score'', JObj [(''$gte'', JNum 5)])]),
         Find (Some ''Auth'', ''Notes'')
           [(''_owner'', JStr ''alice''), (''age'', JObj [(''$gte'', JNum 18)]),
            (''score'', JObj [(''$gte'', JNum 5)])]
           \<lparr>sort = [], projection = [], limit = 100, skip = 0\<rparr>]"
proof -
  have a: "gte \<lparr>queryObject = 0\<rparr> (JStr ''age'') (JNum 18)
             \<lparr>db = ([] :: obj list), log = [], heap = [[]]\<rparr>
     = Inr \<lparr>db = [], log = [], heap = [[(''age'', JObj [(''$gte'', JNum 18)])]]\<rparr>"
    by (simp add: gte_def checkProperty_def assign_prop_def)
  have b: "q_filter (filter_op notes_query \<lparr>queryObject = 0\<rparr>) = Some 0"
    by (simp add: filter_op_def filter_get_def)
  have c: "find_op ex_store (filter_op notes_query \<lparr>queryObject = 0\<rparr>) no_options
        \<lparr>db = [], log = [], heap = [[(''age'', JObj [(''$gte'', JNum 18)])]]\<rparr>
      = (Inr \<lparr>totalCount = 0, pages = 0, pageSize = 100, items = []\<rparr>,
         (filter_op notes_query \<lparr>queryObject = 0\<rparr>,
          \<lparr>db = [],
           log = [ListCollections (Some ''Auth''),
                  CountDocuments (Some ''Auth'', ''Notes'')
                    (JObj [(''_owner'', JStr ''alice''), (''age'', JObj [(''$gte'', JNum 18)])]),
                  Find (Some ''Auth'', ''Notes'')
                    [(''_owner'', JStr ''alice''), (''age'', JObj [(''$gte'', JNum 18)])]
                    \<lparr>sort = [], projection = [], limit = 100, skip = 0\<rparr>],
           heap = [[(''age'', JObj [(''$gte'', JNum 18)])]]\<rparr>))"
    by (simp add: query_eval_defs ex_collections)
  have d: "gte \<lparr>queryObject = 0\<rparr> (JStr ''score'') (JNum 5)
        \<lparr>db = ([] :: obj list), log = [], heap = [[(''age'', JObj [(''$gte'', JNum 18)])]]\<rparr>
     = Inr \<lparr>db = [], log = [],
            heap = [[(''age'', JObj [(''$gte'', JNum 18)]),
                     (''score'', JObj [(''$gte'', JNum 5)])]]\<rparr>"
    by (simp add: gte_def checkProperty_def assign_prop_def)
  have e: "find_op ex_store (filter_op notes_query \<lparr>queryObject = 0\<rparr>) no_options
        \<lparr>db = [], log = [],
         heap = [[(''age'', JObj [(''$gte'', JNum 18)]),
                  (''score'', JObj [(''$gte'', JNum 5)])]]\<rparr>
      = (Inr \<lparr>totalCount = 0, pages = 0, pageSize = 100, items = []\<rparr>,
         (filter_op notes_query \<lparr>queryObject = 0\<rparr>,
          \<lparr>db = [],
           log = [ListCollections (Some ''Auth''),
                  CountDocuments (Some ''Auth'', ''Notes'')
                    (JObj [(''_owner'', JStr ''alice''), (''age'', JObj [(''$gte'', JNum 18)]),
                           (''score'', JObj [(''$gte'', JNum 5)])]),
                  Find (Some ''Auth'', ''Notes'')
                    [(''_owner'', JStr ''alice''), (''age'', JObj [(''$gte'', JNum 18)]),
                     (''score'', JObj [(''$gte'', JNum 5)])]
                    \<lparr>sort = [], projection = [], limit = 100, skip = 0\<rparr>],
           heap = [[(''age'', JObj [(''$gte'', JNum 18)]),
                    (''score'', JObj [(''$gte'', JNum 5)])]]\<rparr>))"
    by (simp add: query_eval_defs ex_collections)
  show ?thesis
    using a b c d e by simp
qed

subsection \<open>The same behaviour for every input\<close>

text \<open>
  The three slips shown above on the example collections do not depend on the input.
  Unless the operation is \<open>Insert\<close>, the schema validator neither reports a missing
  required property nor changes the item, so \<open>insert\<close>, which passes no operation, never
  enforces \<open>required\<close> or applies a default. \<open>remove\<close> never reads the collection's
  \<open>afterRemove\<close> hook. The \<open>$set\<close> payload of \<open>update\<close> is the caller's item as
  \<open>beforeUpdate\<close> left it, whatever the hook returned.
\<close>

lemma checkType_not_missing: "checkType p t v \<noteq> Some (MissingRequiredProperty q)"
  by (simp add: checkType_def)

lemma checkCustomType_not_missing: "checkCustomType p t v \<noteq> Some (MissingRequiredProperty q)"
  by (cases t) (simp_all add: checkType_not_missing)

lemma checkPlainType_not_missing: "checkPlainType p ps v \<noteq> Some (MissingRequiredProperty q)"
  by (cases ps) (simp_all add: checkType_not_missing)

lemma validateProperty_defaults_only_on_Insert:
  assumes "operation \<noteq> Some Insert"
  shows "validateProperty operation p ps item \<noteq> Inl (MissingRequiredProperty q)"
    and "validateProperty operation p ps item = Inr r \<Longrightarrow> r = item"
  using assms
  by (auto simp: validateProperty_def checkType_not_missing checkCustomType_not_missing
                 checkPlainType_not_missing
           split: if_splits schema_field.splits option.splits hook_outcome.splits)

lemma validateProperties_defaults_only_on_Insert:
  assumes "operation \<noteq> Some Insert"
  shows "validateProperties operation sc item \<noteq> Inl (MissingRequiredProperty q)
         \<and> (validateProperties operation sc item = Inr r \<longrightarrow> r = item)"
proof (induction sc arbitrary: item)
  case Nil
  then show ?case by simp
next
  case (Cons ps sc)
  show ?case
  proof (cases "validateProperty operation (fst ps) (snd ps) item")
    case (Inl e)
    then show ?thesis
      using validateProperty_defaults_only_on_Insert(1)[OF assms] by auto
  next
    case (Inr mid)
    then have "mid = item"
      using validateProperty_defaults_only_on_Insert(2)[OF assms] by blast
    then show ?thesis using Inr Cons.IH by simp
  qed
qed

lemma validateItemSchema_without_Insert:
  assumes "operation \<noteq> Some Insert"
  shows "validateItemSchema v sc operation \<noteq> Inl (MissingRequiredProperty q)"
    and "validateItemSchema (JObj item) sc operation = Inr r \<Longrightarrow> r = item"
  using validateProperties_defaults_only_on_Insert[OF assms]
  by (auto simp: validateItemSchema_def split: jsval.splits option.splits)

lemma remove_try_ignores_afterRemoveHook:
  "remove_try S cfg cname (c\<lparr>hooks := (hooks c)\<lparr>afterRemoveHook := h\<rparr>\<rparr>) permission ctx
     itemId opts w
   = remove_try S cfg cname c permission ctx itemId opts w"
  by (simp add: remove_try_def Let_def cong: sum.case_cong prod.case_cong if_cong)

lemma update_try_payload:
  assumes "beforeUpdate rds (beforeUpdateHook (hooks c)) (the_obj item) ctx opts
             = Inr (left, returned)"
    and "validateItemSchema (JObj returned) (schema c) (Some Update) = Inr finalItem"
  shows "log (snd (update_try S rds cfg cname c permission ctx item opts w))
           = log w @ [UpdateOne (selected cfg, cname)
                        (spread [(''_id'', get_prop finalItem ''_id'')]
                           (owner_scope permission ctx))
                        [(''$set'', JObj left)]]"
  using assms
  by (auto simp: update_try_def call_updateOne_def Let_def split: prod.splits sum.splits)

end
